theory Spec2Isabelle
  imports Complex_Main "HOL-Library.AList" "HOL-Library.Sublist"
begin

section \<open>Values decoded from a response body\<close>

text \<open>
  \<^verbatim>\<open>response.json()\<close> yields Python objects: \<^verbatim>\<open>None\<close>, \<^verbatim>\<open>bool\<close>, \<^verbatim>\<open>int\<close>,
  \<^verbatim>\<open>float\<close>, \<^verbatim>\<open>str\<close>, \<^verbatim>\<open>list\<close> and \<^verbatim>\<open>dict\<close> with string keys. A float is kept
  only as far as \<^verbatim>\<open>int()\<close> and truth testing look at it: a finite value, an infinity,
  or not-a-number (the decoder accepts \<^verbatim>\<open>NaN\<close>, \<^verbatim>\<open>Infinity\<close> and out-of-range literals
  such as \<^verbatim>\<open>1e999\<close>). A dict is an association list in insertion order; lookup is
  \<open>map_of\<close>. A string is the UTF-8 encoding of a \<^verbatim>\<open>str\<close> (see below).
\<close>

datatype pyfloat = Finite rat | PosInf | NegInf | NaN

datatype json =
    JNull
  | JBool bool
  | JInt int
  | JFloat pyfloat
  | JStr string
  | JList "json list"
  | JDict "(string \<times> json) list"

type_synonym dict = "(string \<times> json) list"

section \<open>Exceptions\<close>

text \<open>
  \<open>LastFMError\<close> carries what its message is formatted from:
  \<^item> \<open>NetworkError m\<close>: \<^verbatim>\<open>f"Network error calling Last.fm: {exc}"\<close>, \<open>m\<close> the text of \<^verbatim>\<open>exc\<close>;
  \<^item> \<open>HttpError s r\<close>: \<^verbatim>\<open>f"HTTP error from Last.fm: {response.status_code} {response.reason}"\<close>;
  \<^item> \<open>JsonDecodeError\<close>: \<^verbatim>\<open>"Failed to decode JSON from Last.fm response"\<close>;
  \<^item> \<open>ApiError code message\<close>: \<^verbatim>\<open>f"Last.fm API error {code}: {message}"\<close>;
  \<^item> \<open>UnexpectedResponse m\<close>: the message \<open>m\<close> itself (it is built from strings only).
\<close>

datatype lastfm_error =
    NetworkError string
  | HttpError int string
  | JsonDecodeError
  | ApiError json json
  | UnexpectedResponse string

datatype exn =
    LastFMError lastfm_error
  | AttributeError
  | TypeError
  | ValueError
  | OverflowError
  | OSError

section \<open>Built-in operations of the language, as the code uses them\<close>

definition keys :: "dict \<Rightarrow> string list" where
  "keys d = map fst d"

definition dict_get :: "dict \<Rightarrow> string \<Rightarrow> json \<Rightarrow> json" where
  \<comment> \<open>\<^verbatim>\<open>d.get(k, default)\<close>\<close>
  "dict_get d k dflt = (case map_of d k of Some v \<Rightarrow> v | None \<Rightarrow> dflt)"

definition dict_update :: "dict \<Rightarrow> dict \<Rightarrow> dict" where
  \<comment> \<open>\<^verbatim>\<open>d.update(e)\<close>: a key of \<open>d\<close> keeps its place and takes the new value, a new key goes last\<close>
  "dict_update d e = fold (\<lambda>(k, v). AList.update k v) e d"

definition py_get :: "json \<Rightarrow> string \<Rightarrow> json \<Rightarrow> exn + json" where
  \<comment> \<open>\<^verbatim>\<open>obj.get(k, default)\<close> on any decoded value: only a dict has the attribute\<close>
  "py_get obj k dflt = (case obj of JDict d \<Rightarrow> Inr (dict_get d k dflt) | _ \<Rightarrow> Inl AttributeError)"

definition is_dict :: "json \<Rightarrow> bool" where
  \<comment> \<open>\<^verbatim>\<open>isinstance(v, dict)\<close>\<close>
  "is_dict v = (case v of JDict _ \<Rightarrow> True | _ \<Rightarrow> False)"

definition is_str :: "json \<Rightarrow> bool" where
  \<comment> \<open>\<^verbatim>\<open>isinstance(v, str)\<close>\<close>
  "is_str v = (case v of JStr _ \<Rightarrow> True | _ \<Rightarrow> False)"

definition truthy :: "json \<Rightarrow> bool" where
  \<comment> \<open>the truth value \<^verbatim>\<open>or\<close> tests\<close>
  "truthy v =
     (case v of
        JNull \<Rightarrow> False
      | JBool b \<Rightarrow> b
      | JInt n \<Rightarrow> n \<noteq> 0
      | JFloat f \<Rightarrow> f \<noteq> Finite 0
      | JStr s \<Rightarrow> s \<noteq> []
      | JList xs \<Rightarrow> xs \<noteq> []
      | JDict d \<Rightarrow> d \<noteq> [])"

subsection \<open>Strings and their characters\<close>

text \<open>
  A \<^verbatim>\<open>str\<close> is a sequence of Unicode code points. A string of the model is the
  UTF-8 encoding of the \<^verbatim>\<open>str\<close> it stands for, one byte per character of the HOL string,
  so that a literal such as \<open>''totalPages''\<close> is the \<^verbatim>\<open>str\<close> of the same spelling.
  \<open>utf8_decode\<close> gives the code points back; it refuses what no encoder produces
  (a stray continuation byte, an overlong form, a surrogate, a value above U+10FFFF).
  A \<^verbatim>\<open>str\<close> that holds a lone surrogate has no UTF-8 encoding, and no string of the
  model stands for it.
\<close>

definition continuation :: "nat \<Rightarrow> bool" where
  "continuation b = (128 \<le> b \<and> b < 192)"

fun utf8_decode :: "nat list \<Rightarrow> nat list option" where
  "utf8_decode [] = Some []"
| "utf8_decode (b # bs) =
     (if b < 128 then map_option ((#) b) (utf8_decode bs)
      else if 194 \<le> b \<and> b < 224 then
        (case bs of
           c # rest \<Rightarrow>
             if continuation c
             then map_option ((#) ((b - 192) * 64 + (c - 128))) (utf8_decode rest)
             else None
         | _ \<Rightarrow> None)
      else if 224 \<le> b \<and> b < 240 then
        (case bs of
           c # d # rest \<Rightarrow>
             (let n = (b - 224) * 4096 + (c - 128) * 64 + (d - 128)
              in if continuation c \<and> continuation d \<and> 2048 \<le> n \<and> \<not> (55296 \<le> n \<and> n < 57344)
                 then map_option ((#) n) (utf8_decode rest)
                 else None)
         | _ \<Rightarrow> None)
      else if 240 \<le> b \<and> b < 245 then
        (case bs of
           c # d # e # rest \<Rightarrow>
             (let n = (b - 240) * 262144 + (c - 128) * 4096 + (d - 128) * 64 + (e - 128)
              in if continuation c \<and> continuation d \<and> continuation e \<and> 65536 \<le> n \<and> n < 1114112
                 then map_option ((#) n) (utf8_decode rest)
                 else None)
         | _ \<Rightarrow> None)
      else None)"

definition code_points :: "string \<Rightarrow> nat list option" where
  \<comment> \<open>the code points of the \<^verbatim>\<open>str\<close> a string stands for\<close>
  "code_points s = utf8_decode (map of_char s)"

function characters :: "string \<Rightarrow> string list" where
  \<comment> \<open>the one-character strings of a \<^verbatim>\<open>str\<close>: a leading byte with the continuation bytes
      that follow it\<close>
  "characters [] = []"
| "characters (c # cs) =
     (c # takeWhile (\<lambda>x. continuation (of_char x)) cs)
       # characters (dropWhile (\<lambda>x. continuation (of_char x)) cs)"
  by pat_completeness auto
termination
  by (relation "measure length") (auto simp: length_dropWhile_le less_Suc_eq_le)

definition py_iter :: "json \<Rightarrow> exn + json list" where
  \<comment> \<open>the values \<^verbatim>\<open>for item in v\<close> binds: a list's elements, a string's characters, a dict's keys\<close>
  "py_iter v =
     (case v of
        JList xs \<Rightarrow> Inr xs
      | JStr s \<Rightarrow> Inr (map JStr (characters s))
      | JDict d \<Rightarrow> Inr (map JStr (keys d))
      | _ \<Rightarrow> Inl TypeError)"

subsection \<open>\<^verbatim>\<open>int(v)\<close>\<close>

text \<open>
  \<^verbatim>\<open>int\<close> of a \<^verbatim>\<open>str\<close> reads a decimal literal: white space around it is dropped, then
  comes an optional sign, then digits, with single underscores allowed between
  digits; anything else raises \<^verbatim>\<open>ValueError\<close>. The white space dropped is the ASCII
  one (tab, line feed, vertical tab, form feed, carriage return, space; not the
  separators U+001C to U+001F) and, above ASCII, the characters Unicode classes as
  white space. A digit is any character of the Unicode category Nd, with the value
  it has in its script; the digits of the scripts may be mixed. Every script has its
  ten digits in a row: \<open>decimal_zeros\<close> lists the digit zero of each (Unicode 14.0, the
  table of CPython 3.11).
\<close>

definition is_space :: "nat \<Rightarrow> bool" where
  "is_space n =
     ((9 \<le> n \<and> n \<le> 13) \<or> n = 32 \<or> n = 133 \<or> n = 160 \<or> n = 5760 \<or> (8192 \<le> n \<and> n \<le> 8202)
      \<or> n = 8232 \<or> n = 8233 \<or> n = 8239 \<or> n = 8287 \<or> n = 12288)"

definition decimal_zeros :: "nat list" where
  "decimal_zeros =
     [48, 1632, 1776, 1984, 2406, 2534, 2662, 2790, 2918, 3046, 3174, 3302, 3430, 3558,
      3664, 3792, 3872, 4160, 4240, 6112, 6160, 6470, 6608, 6784, 6800, 6992, 7088, 7232,
      7248, 42528, 43216, 43264, 43472, 43504, 43600, 44016, 65296, 66720, 68912, 69734,
      69872, 69942, 70096, 70384, 70736, 70864, 71248, 71360, 71472, 71904, 72016, 72784,
      73040, 73120, 92768, 92864, 93008, 120782, 120792, 120802, 120812, 120822, 123200,
      123632, 125264, 130032]"

definition digit_value :: "nat \<Rightarrow> nat option" where
  "digit_value n =
     (case find (\<lambda>z. z \<le> n \<and> n < z + 10) decimal_zeros of
        Some z \<Rightarrow> Some (n - z)
      | None \<Rightarrow> None)"

definition is_digit :: "nat \<Rightarrow> bool" where
  "is_digit n = (digit_value n \<noteq> None)"

definition strip :: "nat list \<Rightarrow> nat list" where
  "strip s = rev (dropWhile is_space (rev (dropWhile is_space s)))"

fun well_grouped :: "nat list \<Rightarrow> bool" where
  \<comment> \<open>digits, with single underscores (code point 95) between digits only\<close>
  "well_grouped [] = False"
| "well_grouped [c] = is_digit c"
| "well_grouped (c # d # cs) =
     (is_digit c \<and> (if d = 95 then cs \<noteq> [] \<and> well_grouped cs else well_grouped (d # cs)))"

definition digits_value :: "nat list \<Rightarrow> int" where
  "digits_value ds =
     foldl (\<lambda>acc c. 10 * acc + (case digit_value c of Some d \<Rightarrow> int d | None \<Rightarrow> 0)) 0 ds"

definition int_max_str_digits :: nat where
  \<comment> \<open>the interpreter's default limit on the digits of a converted string\<close>
  "int_max_str_digits = 4300"

definition int_of_str :: "string \<Rightarrow> exn + int" where
  \<comment> \<open>45 is the minus sign, 43 the plus sign; the first case is that of a string that
      encodes no \<^verbatim>\<open>str\<close>\<close>
  "int_of_str s =
     (case code_points s of
        None \<Rightarrow> Inl ValueError
      | Some cps \<Rightarrow>
          (let t = strip cps;
               neg = (t \<noteq> [] \<and> hd t = 45);
               body = (if t \<noteq> [] \<and> (hd t = 45 \<or> hd t = 43) then tl t else t);
               ds = filter is_digit body
           in if well_grouped body \<and> length ds \<le> int_max_str_digits
              then Inr (if neg then - digits_value ds else digits_value ds)
              else Inl ValueError))"

definition truncate :: "rat \<Rightarrow> int" where
  \<comment> \<open>rounding towards zero\<close>
  "truncate r = (if r < 0 then - \<lfloor>- r\<rfloor> else \<lfloor>r\<rfloor>)"

definition py_int :: "json \<Rightarrow> exn + int" where
  "py_int v =
     (case v of
        JNull \<Rightarrow> Inl TypeError
      | JBool b \<Rightarrow> Inr (if b then 1 else 0)
      | JInt n \<Rightarrow> Inr n
      | JFloat f \<Rightarrow>
          (case f of
             Finite r \<Rightarrow> Inr (truncate r)
           | NaN \<Rightarrow> Inl ValueError
           | _ \<Rightarrow> Inl OverflowError)
      | JStr s \<Rightarrow> int_of_str s
      | JList _ \<Rightarrow> Inl TypeError
      | JDict _ \<Rightarrow> Inl TypeError)"

section \<open>The client (\<^verbatim>\<open>lastfm_client.py\<close>)\<close>

record client =
  api_key :: string
  timeout :: rat

text \<open>
  What \<^verbatim>\<open>requests.get\<close> does on one call: it raises a \<^verbatim>\<open>RequestException\<close> (with its
  text), or returns a response with a status code, a reason phrase and a body;
  the body is \<open>None\<close> when \<^verbatim>\<open>response.json()\<close> raises \<^verbatim>\<open>ValueError\<close>. The remote
  side is a sequence of such outcomes: the \<open>n\<close>-th call (from 0) gets the \<open>n\<close>-th one.
  The queries sent so far are the state of the network, oldest first.
\<close>

datatype http_reply =
    RequestException string
  | Response int string "json option"

type_synonym remote = "nat \<Rightarrow> http_reply"

definition response_ok :: "int \<Rightarrow> bool" where
  \<comment> \<open>\<^verbatim>\<open>response.ok\<close>: \<^verbatim>\<open>raise_for_status()\<close> does not raise\<close>
  "response_ok status = (\<not> (400 \<le> status \<and> status < 600))"

definition request_query :: "client \<Rightarrow> string \<Rightarrow> dict \<Rightarrow> dict" where
  "request_query c method_name params =
     dict_update
       [(''method'', JStr method_name), (''api_key'', JStr (api_key c)), (''format'', JStr ''json'')]
       params"

definition decode_reply :: "http_reply \<Rightarrow> exn + json" where
  \<comment> \<open>\<^verbatim>\<open>_request\<close> after the call of \<^verbatim>\<open>requests.get\<close>\<close>
  "decode_reply r =
     (case r of
        RequestException m \<Rightarrow> Inl (LastFMError (NetworkError m))
      | Response status reason body \<Rightarrow>
          if \<not> response_ok status then Inl (LastFMError (HttpError status reason))
          else
            (case body of
               None \<Rightarrow> Inl (LastFMError JsonDecodeError)
             | Some data \<Rightarrow>
                 (case data of
                    JDict d \<Rightarrow>
                      if ''error'' \<in> set (keys d)
                      then Inl (LastFMError
                             (ApiError (dict_get d ''error'' JNull)
                                (dict_get d ''message'' (JStr ''Unknown Last.fm error''))))
                      else Inr data
                  | _ \<Rightarrow> Inr data)))"

definition request :: "remote \<Rightarrow> client \<Rightarrow> string \<Rightarrow> dict \<Rightarrow> dict list \<Rightarrow> (exn + json) \<times> dict list" where
  \<comment> \<open>\<^verbatim>\<open>_request\<close>: one GET, logged with its query\<close>
  "request net c method_name params hist =
     (decode_reply (net (length hist)), hist @ [request_query c method_name params])"

subsection \<open>\<^verbatim>\<open>_iter_paginated\<close>\<close>

record pager =
  method_name :: string
  user :: string
  root_key :: string
  list_key :: string
  limit_per_page :: int
  extra_params :: "dict option"

text \<open>
  The generator, drained: \<open>yielded\<close> are the items it has yielded so far, in order,
  \<open>sent\<close> the queries issued so far.
\<close>

record gen_state =
  current_page :: int
  total_pages :: "int option"
  yielded :: "json list"
  sent :: "dict list"

datatype control = Continue | Break | Raise exn

definition page_params :: "pager \<Rightarrow> int \<Rightarrow> dict" where
  \<comment> \<open>lines 126-127 and 133-138\<close>
  "page_params a page =
     dict_update
       [(''user'', JStr (user a)), (''limit'', JInt (limit_per_page a)), (''page'', JInt page)]
       (case extra_params a of None \<Rightarrow> [] | Some e \<Rightarrow> e)"

definition keyword_clash :: "dict \<Rightarrow> bool" where
  \<comment> \<open>\<^verbatim>\<open>self._request(method_name, **params)\<close> raises \<^verbatim>\<open>TypeError\<close> when a key of
      \<^verbatim>\<open>params\<close> names a parameter that is already bound\<close>
  "keyword_clash params = (''method_name'' \<in> set (keys params) \<or> ''self'' \<in> set (keys params))"

definition missing_key_message :: "pager \<Rightarrow> string" where
  \<comment> \<open>lines 145-146\<close>
  "missing_key_message a =
     ''Unexpected response: key '' @ [CHR 0x27] @ root_key a @ [CHR 0x27] @ '' missing ''
       @ ''for method '' @ method_name a"

definition page_container :: "pager \<Rightarrow> json \<Rightarrow> exn + json" where
  \<comment> \<open>lines 142-147\<close>
  "page_container a data =
     (case py_get data (root_key a) JNull of
        Inl e \<Rightarrow> Inl e
      | Inr container \<Rightarrow>
          if container = JNull
          then Inl (LastFMError (UnexpectedResponse (missing_key_message a)))
          else Inr container)"

definition page_items :: "pager \<Rightarrow> json \<Rightarrow> exn + json list" where
  \<comment> \<open>lines 149-154: the items the page yields\<close>
  "page_items a container =
     (case py_get container (list_key a) (JList []) of
        Inl e \<Rightarrow> Inl e
      | Inr items \<Rightarrow> py_iter (if is_dict items then JList [items] else items))"

definition reported_total :: "json \<Rightarrow> exn + json" where
  \<comment> \<open>lines 157-158: \<^verbatim>\<open>attr.get("totalPages") or attr.get("totalpages")\<close>\<close>
  "reported_total container =
     (case py_get container ''@attr'' (JDict []) of
        Inl e \<Rightarrow> Inl e
      | Inr attr \<Rightarrow>
          (case py_get attr ''totalPages'' JNull of
             Inl e \<Rightarrow> Inl e
           | Inr v \<Rightarrow> if truthy v then Inr v else py_get attr ''totalpages'' JNull))"

definition first_page_total :: "json \<Rightarrow> exn + int" where
  \<comment> \<open>lines 157-165\<close>
  "first_page_total container =
     (case reported_total container of
        Inl e \<Rightarrow> Inl e
      | Inr total_pages_str \<Rightarrow>
          if total_pages_str \<noteq> JNull
          then
            (case py_int total_pages_str of
               Inr n \<Rightarrow> Inr n
             | Inl TypeError \<Rightarrow> Inr 1
             | Inl ValueError \<Rightarrow> Inr 1
             | Inl e \<Rightarrow> Inl e)
          else Inr 1)"

definition loop_body :: "remote \<Rightarrow> client \<Rightarrow> pager \<Rightarrow> gen_state \<Rightarrow> control \<times> gen_state" where
  \<comment> \<open>one pass through the \<^verbatim>\<open>while True\<close> of lines 132-170\<close>
  "loop_body net c a st =
     (let params = page_params a (current_page st) in
      if keyword_clash params then (Raise TypeError, st)
      else
        (case request net c (method_name a) params (sent st) of
           (res, hist) \<Rightarrow>
             let st1 = st\<lparr>sent := hist\<rparr> in
             (case res of
                Inl e \<Rightarrow> (Raise e, st1)
              | Inr data \<Rightarrow>
                  (case page_container a data of
                     Inl e \<Rightarrow> (Raise e, st1)
                   | Inr container \<Rightarrow>
                       (case page_items a container of
                          Inl e \<Rightarrow> (Raise e, st1)
                        | Inr items \<Rightarrow>
                            let st2 = st1\<lparr>yielded := yielded st1 @ items\<rparr> in
                            (case (case total_pages st2 of
                                     None \<Rightarrow> first_page_total container
                                   | Some t \<Rightarrow> Inr t) of
                               Inl e \<Rightarrow> (Raise e, st2)
                             | Inr t \<Rightarrow>
                                 let st3 = st2\<lparr>total_pages := Some t\<rparr> in
                                 if current_page st3 \<ge> t then (Break, st3)
                                 else (Continue, st3\<lparr>current_page := current_page st3 + 1\<rparr>)))))))"

function iter_loop :: "remote \<Rightarrow> client \<Rightarrow> pager \<Rightarrow> gen_state \<Rightarrow> exn option \<times> gen_state" where
  "iter_loop net c a st =
     (case loop_body net c a st of
        (Continue, st') \<Rightarrow> iter_loop net c a st'
      | (Break, st') \<Rightarrow> (None, st')
      | (Raise e, st') \<Rightarrow> (Some e, st'))"
  by pat_completeness auto
termination
proof (relation "inv_image (less_than <*lex*> less_than)
    (\<lambda>(net, c, a, st). (if total_pages st = None then 1 else 0 :: nat,
                          nat (the (total_pages st) - current_page st)))")
  show "wf (inv_image (less_than <*lex*> less_than)
    (\<lambda>(net :: remote, c :: client, a :: pager, st).
        (if total_pages st = None then 1 else 0 :: nat,
         nat (the (total_pages st) - current_page st))))"
    by (intro wf_inv_image wf_lex_prod wf_less_than)
next
  fix net :: remote and c :: client and a :: pager and st :: gen_state and x y
    and st' :: gen_state
  assume "(x, st') = loop_body net c a st" and "x = Continue"
  then have "loop_body net c a st = (Continue, st')" by simp
  then have "\<exists>t. total_pages st' = Some t \<and> (total_pages st = None \<or> total_pages st = Some t)
           \<and> current_page st' = current_page st + 1 \<and> current_page st < t"
    by (auto simp: loop_body_def Let_def split: if_splits prod.splits sum.splits option.splits)
  then show "((net, c, a, st'), (net, c, a, st)) \<in> inv_image (less_than <*lex*> less_than)
    (\<lambda>(net, c, a, st). (if total_pages st = None then 1 else 0 :: nat,
                          nat (the (total_pages st) - current_page st)))"
    by auto
qed

definition iter_paginated :: "remote \<Rightarrow> client \<Rightarrow> pager \<Rightarrow> dict list \<Rightarrow> exn option \<times> gen_state" where
  \<comment> \<open>the generator run to its end: the exception that ended it, if any, and what it
      yielded and sent\<close>
  "iter_paginated net c a hist =
     iter_loop net c a \<lparr>current_page = 1, total_pages = None, yielded = [], sent = hist\<rparr>"

text \<open>
  Three notions the statements below use. \<open>page_of a r\<close> is the container and the items
  of the reply \<open>r\<close> when lines 140-154 go through on it without raising, \<open>reply_items\<close>
  its items, and \<open>page_query c a p\<close> the query \<^verbatim>\<open>_request\<close> sends for page \<open>p\<close>.
\<close>

definition page_of :: "pager \<Rightarrow> http_reply \<Rightarrow> (json \<times> json list) option" where
  "page_of a r =
     (case decode_reply r of
        Inl e \<Rightarrow> None
      | Inr data \<Rightarrow>
          (case page_container a data of
             Inl e \<Rightarrow> None
           | Inr container \<Rightarrow>
               (case page_items a container of
                  Inl e \<Rightarrow> None
                | Inr items \<Rightarrow> Some (container, items))))"

definition reply_items :: "pager \<Rightarrow> http_reply \<Rightarrow> json list" where
  "reply_items a r = (case page_of a r of Some (container, items) \<Rightarrow> items | None \<Rightarrow> [])"

definition page_query :: "client \<Rightarrow> pager \<Rightarrow> int \<Rightarrow> dict" where
  "page_query c a page = request_query c (method_name a) (page_params a page)"

subsection \<open>\<^verbatim>\<open>get_user_artists\<close> and \<^verbatim>\<open>get_user_albums\<close>\<close>

definition get_user_artists ::
  "remote \<Rightarrow> client \<Rightarrow> string \<Rightarrow> int \<Rightarrow> dict list \<Rightarrow> (exn + json list) \<times> dict list" where
  "get_user_artists net c u limit hist =
     (case iter_paginated net c
             \<lparr>method_name = ''library.getartists'', user = u, root_key = ''artists'',
              list_key = ''artist'', limit_per_page = limit, extra_params = None\<rparr> hist of
        (None, st) \<Rightarrow> (Inr (yielded st), sent st)
      | (Some e, st) \<Rightarrow> (Inl e, sent st))"

definition get_user_albums ::
  "remote \<Rightarrow> client \<Rightarrow> string \<Rightarrow> int \<Rightarrow> string option \<Rightarrow> dict list \<Rightarrow> (exn + json list) \<times> dict list" where
  "get_user_albums net c u limit artist_filter hist =
     (let extra = (case artist_filter of
                     None \<Rightarrow> []
                   | Some f \<Rightarrow> if f \<noteq> [] then [(''artist'', JStr f)] else [])
      in case iter_paginated net c
             \<lparr>method_name = ''library.getalbums'', user = u, root_key = ''albums'',
              list_key = ''album'', limit_per_page = limit, extra_params = Some extra\<rparr> hist of
        (None, st) \<Rightarrow> (Inr (yielded st), sent st)
      | (Some e, st) \<Rightarrow> (Inl e, sent st))"

section \<open>Documents (\<^verbatim>\<open>json.dump\<close> and \<^verbatim>\<open>json.load\<close>)\<close>

text \<open>
  The text \<^verbatim>\<open>json.dump\<close> writes is kept as the JSON value it spells; white space and
  indentation are not part of it. The encoder follows the conversion table of the
  library: a dict becomes an object with its members in the order of the dict, a
  list an array, a \<^verbatim>\<open>str\<close> a string, \<^verbatim>\<open>True\<close>, \<^verbatim>\<open>False\<close> and \<^verbatim>\<open>None\<close> the three literals,
  an \<^verbatim>\<open>int\<close> an integer literal (\<^verbatim>\<open>int.__repr__\<close>), a \<^verbatim>\<open>float\<close> a literal with a fraction or
  an exponent (\<^verbatim>\<open>float.__repr__\<close>, the shortest text that reads back as the same float)
  or one of \<^verbatim>\<open>NaN\<close>, \<^verbatim>\<open>Infinity\<close>, \<^verbatim>\<open>-Infinity\<close> (\<^verbatim>\<open>allow_nan\<close> is left at its default).
  A float literal is kept as the float it reads as. With \<^verbatim>\<open>ensure_ascii=False\<close> a string
  is written in its own characters, which the stream encodes as UTF-8; two
  characters and the control characters are escaped and read back unescaped.

  The decoder is the table read backwards. Of the members of an object that share a
  name the last one gives the value, at the place of the first.

  The conversion of an \<^verbatim>\<open>int\<close> to text and back is limited to \<open>int_max_str_digits\<close>
  digits: beyond it both directions raise \<^verbatim>\<open>ValueError\<close>.
\<close>

datatype json_text =
    TNull
  | TBool bool
  | TInt int
  | TFloat pyfloat
  | TString string
  | TArray "json_text list"
  | TObject "(string \<times> json_text) list"

primrec encode :: "json \<Rightarrow> json_text" where
  "encode JNull = TNull"
| "encode (JBool b) = TBool b"
| "encode (JInt n) = TInt n"
| "encode (JFloat f) = TFloat f"
| "encode (JStr s) = TString s"
| "encode (JList xs) = TArray (map encode xs)"
| "encode (JDict d) = TObject (map (map_prod id encode) d)"

primrec decode :: "json_text \<Rightarrow> json" where
  "decode TNull = JNull"
| "decode (TBool b) = JBool b"
| "decode (TInt n) = JInt n"
| "decode (TFloat f) = JFloat f"
| "decode (TString s) = JStr s"
| "decode (TArray ts) = JList (map decode ts)"
| "decode (TObject ms) = JDict (dict_update [] (map (map_prod id decode) ms))"

definition within_digit_limit :: "int \<Rightarrow> bool" where
  \<comment> \<open>the decimal text of \<open>n\<close> has at most \<open>int_max_str_digits\<close> digits\<close>
  "within_digit_limit n = (\<bar>n\<bar> < 10 ^ int_max_str_digits)"

fun ints_printable :: "json \<Rightarrow> bool" where
  "ints_printable (JInt n) = within_digit_limit n"
| "ints_printable (JList xs) = (\<forall>x \<in> set xs. ints_printable x)"
| "ints_printable (JDict d) = (\<forall>(k, v) \<in> set d. ints_printable v)"
| "ints_printable _ = True"

fun ints_readable :: "json_text \<Rightarrow> bool" where
  "ints_readable (TInt n) = within_digit_limit n"
| "ints_readable (TArray ts) = (\<forall>t \<in> set ts. ints_readable t)"
| "ints_readable (TObject ms) = (\<forall>(k, t) \<in> set ms. ints_readable t)"
| "ints_readable _ = True"

definition json_dump :: "json \<Rightarrow> exn + json_text" where
  "json_dump v = (if ints_printable v then Inr (encode v) else Inl ValueError)"

definition json_load :: "json_text \<Rightarrow> exn + json" where
  "json_load t = (if ints_readable t then Inr (decode t) else Inl ValueError)"

text \<open>
  A dict has each key once. The association lists that stand for dicts have this
  property when it holds of every dict inside the value:
\<close>

fun distinct_names :: "json \<Rightarrow> bool" where
  "distinct_names (JList xs) = (\<forall>x \<in> set xs. distinct_names x)"
| "distinct_names (JDict d) = (distinct (keys d) \<and> (\<forall>(k, v) \<in> set d. distinct_names v))"
| "distinct_names _ = True"

section \<open>The exporter (\<^verbatim>\<open>exporter.py\<close>)\<close>

text \<open>
  A path is the list of its parts, as \<^verbatim>\<open>pathlib\<close> keeps them on a POSIX system: the names
  from left to right, after the root \<^verbatim>\<open>/\<close> (or \<^verbatim>\<open>//\<close>) when the path is absolute. \<^verbatim>\<open>output_dir / name\<close>
  splits \<open>name\<close> at every \<^verbatim>\<open>/\<close>, drops the empty names and the names \<^verbatim>\<open>.\<close>, keeps
  the names \<^verbatim>\<open>..\<close>, and appends the rest to \<open>output_dir\<close>; a \<open>name\<close> that begins with
  \<^verbatim>\<open>/\<close> is absolute and replaces \<open>output_dir\<close> (exactly two leading slashes make the
  root \<^verbatim>\<open>//\<close>). The file system below keeps no links between directories: to it the
  part \<^verbatim>\<open>..\<close> is a name like another.

  A file holds what its writer produced: the JSON value that \<^verbatim>\<open>json.dump\<close> spelled, or
  the header and the rows given to \<^verbatim>\<open>csv.DictWriter\<close> (each row the list of its cells,
  in column order); \<open>Incomplete\<close> is what is left of a document when \<^verbatim>\<open>json.dump\<close> raised
  before the end of its text. The file system fails an operation only for the reasons its
  own state gives: a file where a directory is needed, a directory where a file is to
  be opened, a missing parent.
\<close>

type_synonym path = "string list"

datatype content = JsonDocument json_text | CsvTable "string list" "json list list" | Incomplete

record filesystem =
  dirs :: "path set"
  files :: "path \<rightharpoonup> content"

definition mkdir_parents :: "path \<Rightarrow> filesystem \<Rightarrow> exn + filesystem" where
  \<comment> \<open>\<^verbatim>\<open>p.mkdir(parents=True, exist_ok=True)\<close>\<close>
  "mkdir_parents p fs =
     (if \<exists>q \<in> set (prefixes p). q \<in> dom (files fs) then Inl OSError
      else Inr (fs\<lparr>dirs := dirs fs \<union> set (prefixes p)\<rparr>))"

definition open_w :: "path \<Rightarrow> filesystem \<Rightarrow> exn + filesystem" where
  \<comment> \<open>\<^verbatim>\<open>p.open("w")\<close>: the file exists and is empty afterwards; its content is set when
      it is closed\<close>
  "open_w p fs =
     (if p \<in> dirs fs \<or> butlast p \<notin> dirs fs \<or> p = [] then Inl OSError else Inr fs)"

definition split_slash :: "string \<Rightarrow> string list" where
  \<comment> \<open>\<^verbatim>\<open>name.split("/")\<close>\<close>
  "split_slash s =
     foldr (\<lambda>c acc. if c = CHR ''/'' then [] # acc else (c # hd acc) # tl acc) s [[]]"

definition names_of :: "string \<Rightarrow> string list" where
  "names_of name = filter (\<lambda>n. n \<noteq> [] \<and> n \<noteq> ''.'') (split_slash name)"

definition join :: "path \<Rightarrow> string \<Rightarrow> path" where
  \<comment> \<open>\<^verbatim>\<open>output_dir / name\<close>\<close>
  "join d name =
     (let slashes = length (takeWhile (\<lambda>c. c = CHR ''/'') name)
      in if slashes = 0 then d @ names_of name
         else (if slashes = 2 then ''//'' else ''/'') # names_of name)"

record export_result =
  artists_count :: nat
  albums_count :: nat
  json_path :: "path option"
  artists_csv_path :: "path option"
  albums_csv_path :: "path option"

record exporter =
  client_of :: client
  username :: string

record export_options =
  output_dir :: path
  base_name :: string
  write_json :: bool
  write_csv :: bool
  artists_per_page :: int
  albums_per_page :: int

definition extract_album_artist :: "json \<Rightarrow> exn + json" where
  \<comment> \<open>\<^verbatim>\<open>_extract_album_artist\<close>\<close>
  "extract_album_artist album =
     (case py_get album ''artist'' (JStr '''') of
        Inl e \<Rightarrow> Inl e
      | Inr artist_value \<Rightarrow>
          if is_dict artist_value then py_get artist_value ''name'' (JStr '''')
          else if is_str artist_value then Inr artist_value
          else Inr (JStr ''''))"

definition artist_fieldnames :: "string list" where
  "artist_fieldnames = [''name'', ''mbid'', ''playcount'', ''url'', ''streamable'', ''tagcount'']"

definition album_fieldnames :: "string list" where
  "album_fieldnames = [''name'', ''artist'', ''mbid'', ''playcount'', ''url'']"

definition artist_row :: "json \<Rightarrow> exn + dict" where
  \<comment> \<open>lines 106-113\<close>
  "artist_row artist =
     (case artist of
        JDict d \<Rightarrow>
          Inr [(''name'', dict_get d ''name'' (JStr '''')),
               (''mbid'', dict_get d ''mbid'' (JStr '''')),
               (''playcount'', dict_get d ''playcount'' (JStr '''')),
               (''url'', dict_get d ''url'' (JStr '''')),
               (''streamable'', dict_get d ''streamable'' (JStr '''')),
               (''tagcount'', dict_get d ''tagcount'' (JStr ''''))]
      | _ \<Rightarrow> Inl AttributeError)"

definition album_row :: "json \<Rightarrow> exn + dict" where
  \<comment> \<open>lines 134-140\<close>
  "album_row album =
     (case album of
        JDict d \<Rightarrow>
          (case extract_album_artist album of
             Inl e \<Rightarrow> Inl e
           | Inr artist \<Rightarrow>
               Inr [(''name'', dict_get d ''name'' (JStr '''')),
                    (''artist'', artist),
                    (''mbid'', dict_get d ''mbid'' (JStr '''')),
                    (''playcount'', dict_get d ''playcount'' (JStr '''')),
                    (''url'', dict_get d ''url'' (JStr ''''))])
      | _ \<Rightarrow> Inl AttributeError)"

definition writerow :: "string list \<Rightarrow> dict \<Rightarrow> exn + json list" where
  \<comment> \<open>\<^verbatim>\<open>DictWriter.writerow\<close>: \<^verbatim>\<open>ValueError\<close> on a key that is no field name, else the cells
      in the order of the field names, \<^verbatim>\<open>""\<close> for a field the row lacks\<close>
  "writerow fieldnames row =
     (if \<exists>k \<in> set (keys row). k \<notin> set fieldnames then Inl ValueError
      else Inr (map (\<lambda>k. dict_get row k (JStr '''')) fieldnames))"

fun write_rows ::
  "(json \<Rightarrow> exn + dict) \<Rightarrow> string list \<Rightarrow> json list \<Rightarrow> json list list \<Rightarrow> exn option \<times> json list list" where
  \<comment> \<open>the \<^verbatim>\<open>for\<close> loop over the records: the rows written, and the exception that ended it\<close>
  "write_rows mk fieldnames [] written = (None, written)"
| "write_rows mk fieldnames (r # rs) written =
     (case mk r of
        Inl e \<Rightarrow> (Some e, written)
      | Inr row \<Rightarrow>
          (case writerow fieldnames row of
             Inl e \<Rightarrow> (Some e, written)
           | Inr cells \<Rightarrow> write_rows mk fieldnames rs (written @ [cells])))"

definition write_csv_file ::
  "(json \<Rightarrow> exn + dict) \<Rightarrow> string list \<Rightarrow> json list \<Rightarrow> path \<Rightarrow> filesystem \<Rightarrow> exn option \<times> filesystem" where
  \<comment> \<open>the \<^verbatim>\<open>with csv_path.open(...)\<close> block shared by both writers: header, then the rows\<close>
  "write_csv_file mk fieldnames records csv_path fs =
     (case open_w csv_path fs of
        Inl e \<Rightarrow> (Some e, fs)
      | Inr fs1 \<Rightarrow>
          (case write_rows mk fieldnames records [] of
             (err, rows) \<Rightarrow> (err, fs1\<lparr>files := (files fs1)(csv_path \<mapsto> CsvTable fieldnames rows)\<rparr>)))"

definition write_artists_csv :: "json list \<Rightarrow> path \<Rightarrow> filesystem \<Rightarrow> exn option \<times> filesystem" where
  "write_artists_csv artists csv_path fs = write_csv_file artist_row artist_fieldnames artists csv_path fs"

definition write_albums_csv :: "json list \<Rightarrow> path \<Rightarrow> filesystem \<Rightarrow> exn option \<times> filesystem" where
  "write_albums_csv albums csv_path fs = write_csv_file album_row album_fieldnames albums csv_path fs"

definition export_payload :: "string \<Rightarrow> string \<Rightarrow> json list \<Rightarrow> json list \<Rightarrow> json" where
  \<comment> \<open>lines 57-62; \<open>now\<close> is \<^verbatim>\<open>datetime.now(timezone.utc).isoformat()\<close>\<close>
  "export_payload u now artists albums =
     JDict [(''user'', JStr u), (''exported_at'', JStr now),
            (''artists'', JList artists), (''albums'', JList albums)]"

definition write_json_file :: "json \<Rightarrow> path \<Rightarrow> filesystem \<Rightarrow> exn option \<times> filesystem" where
  \<comment> \<open>lines 70-71\<close>
  "write_json_file payload p fs =
     (case open_w p fs of
        Inl e \<Rightarrow> (Some e, fs)
      | Inr fs1 \<Rightarrow>
          (case json_dump payload of
             Inl e \<Rightarrow> (Some e, fs1\<lparr>files := (files fs1)(p \<mapsto> Incomplete)\<rparr>)
           | Inr t \<Rightarrow> (None, fs1\<lparr>files := (files fs1)(p \<mapsto> JsonDocument t)\<rparr>)))"

definition read_json :: "path \<Rightarrow> filesystem \<Rightarrow> exn + json" where
  \<comment> \<open>\<^verbatim>\<open>json.load\<close> of the file at \<open>p\<close>, for a reader of the export: a file that holds no
      complete JSON text raises \<^verbatim>\<open>JSONDecodeError\<close>, a \<^verbatim>\<open>ValueError\<close>\<close>
  "read_json p fs =
     (case files fs p of
        None \<Rightarrow> Inl OSError
      | Some (JsonDocument t) \<Rightarrow> json_load t
      | Some _ \<Rightarrow> Inl ValueError)"

definition write_outputs ::
  "export_options \<Rightarrow> json \<Rightarrow> json list \<Rightarrow> json list \<Rightarrow> filesystem \<Rightarrow> (exn + export_result) \<times> filesystem" where
  \<comment> \<open>lines 64-85\<close>
  "write_outputs opts payload artists albums fs =
     (let jp = join (output_dir opts) (base_name opts @ ''.json'');
          ap = join (output_dir opts) (base_name opts @ ''_artists.csv'');
          bp = join (output_dir opts) (base_name opts @ ''_albums.csv'')
      in case (if write_json opts then write_json_file payload jp fs else (None, fs)) of
           (Some e, fs1) \<Rightarrow> (Inl e, fs1)
         | (None, fs1) \<Rightarrow>
             (case (if write_csv opts then write_artists_csv artists ap fs1 else (None, fs1)) of
                (Some e, fs2) \<Rightarrow> (Inl e, fs2)
              | (None, fs2) \<Rightarrow>
                  (case (if write_csv opts then write_albums_csv albums bp fs2 else (None, fs2)) of
                     (Some e, fs3) \<Rightarrow> (Inl e, fs3)
                   | (None, fs3) \<Rightarrow>
                       (Inr \<lparr>artists_count = length artists, albums_count = length albums,
                             json_path = (if write_json opts then Some jp else None),
                             artists_csv_path = (if write_csv opts then Some ap else None),
                             albums_csv_path = (if write_csv opts then Some bp else None)\<rparr>,
                        fs3))))"

definition export_library ::
  "remote \<Rightarrow> exporter \<Rightarrow> string \<Rightarrow> export_options \<Rightarrow> dict list \<times> filesystem
     \<Rightarrow> (exn + export_result) \<times> dict list \<times> filesystem" where
  "export_library net ex now opts w =
     (case w of (hist, fs) \<Rightarrow>
        (case mkdir_parents (output_dir opts) fs of
           Inl e \<Rightarrow> (Inl e, hist, fs)
         | Inr fs1 \<Rightarrow>
             (case get_user_artists net (client_of ex) (username ex) (artists_per_page opts) hist of
                (Inl e, hist1) \<Rightarrow> (Inl e, hist1, fs1)
              | (Inr artists, hist1) \<Rightarrow>
                  (case get_user_albums net (client_of ex) (username ex) (albums_per_page opts) None hist1 of
                     (Inl e, hist2) \<Rightarrow> (Inl e, hist2, fs1)
                   | (Inr albums, hist2) \<Rightarrow>
                       (case write_outputs opts (export_payload (username ex) now artists albums)
                               artists albums fs1 of
                          (res, fs2) \<Rightarrow> (res, hist2, fs2))))))"

text \<open>
  The cells of a row, as the statements below write them: \<open>album_artist_cell d\<close> is the
  value \<^verbatim>\<open>_extract_album_artist\<close> returns for the record \<open>d\<close> (\<open>extract_album_artist_cell\<close>).
\<close>

definition album_artist_cell :: "dict \<Rightarrow> json" where
  "album_artist_cell d =
     (case map_of d ''artist'' of
        None \<Rightarrow> JStr ''''
      | Some (JStr s) \<Rightarrow> JStr s
      | Some (JDict m) \<Rightarrow> dict_get m ''name'' (JStr '''')
      | Some _ \<Rightarrow> JStr '''')"

definition artist_cells :: "dict \<Rightarrow> json list" where
  "artist_cells d =
     [dict_get d ''name'' (JStr ''''), dict_get d ''mbid'' (JStr ''''),
      dict_get d ''playcount'' (JStr ''''), dict_get d ''url'' (JStr ''''),
      dict_get d ''streamable'' (JStr ''''), dict_get d ''tagcount'' (JStr '''')]"

definition album_cells :: "dict \<Rightarrow> json list" where
  "album_cells d =
     [dict_get d ''name'' (JStr ''''), album_artist_cell d, dict_get d ''mbid'' (JStr ''''),
      dict_get d ''playcount'' (JStr ''''), dict_get d ''url'' (JStr '''')]"

section \<open>Example data\<close>

text \<open>
  The scenario of the specification: user \<open>alice\<close>, two pages of artists, two items on
  the first page and one on the second.
\<close>

definition alice_client :: client where
  "alice_client = \<lparr>api_key = ''secret'', timeout = 15\<rparr>"

definition alice_artists :: pager where
  "alice_artists =
     \<lparr>method_name = ''library.getartists'', user = ''alice'', root_key = ''artists'',
      list_key = ''artist'', limit_per_page = 1000, extra_params = None\<rparr>"

definition artist_of :: "string \<Rightarrow> json" where
  "artist_of n = JDict [(''name'', JStr n), (''playcount'', JStr ''7'')]"

definition artists_container :: "json list \<Rightarrow> json \<Rightarrow> json" where
  "artists_container items tp =
     JDict [(''artist'', JList items), (''@attr'', JDict [(''page'', JStr ''1''), (''totalPages'', tp)])]"

definition alice_remote :: remote where
  "alice_remote n =
     (if n = 0
      then Response 200 ''OK''
             (Some (JDict [(''artists'', artists_container [artist_of ''Radiohead'', artist_of ''Low''] (JStr ''2''))]))
      else Response 200 ''OK''
             (Some (JDict [(''artists'', artists_container [artist_of ''Can''] (JStr ''2''))])))"

definition zero_total_remote :: remote where
  "zero_total_remote n =
     Response 200 ''OK''
       (Some (JDict [(''artists'', artists_container [artist_of ''Radiohead'', artist_of ''Low''] (JStr ''0''))]))"

definition infinite_total_remote :: remote where
  "infinite_total_remote n =
     Response 200 ''OK''
       (Some (JDict [(''artists'', artists_container [artist_of ''Radiohead''] (JFloat PosInf))]))"

definition broken_remote :: remote where
  "broken_remote n =
     (if n = 0 then alice_remote 0
      else Response 200 ''OK'' (Some (JDict [(''status'', JStr ''ok'')])))"

definition outage_after_two :: remote where
  "outage_after_two n = (if n < 2 then alice_remote n else RequestException ''connection refused'')"

definition single_item_remote :: remote where
  "single_item_remote n =
     Response 200 ''OK''
       (Some (JDict [(''artists'', JDict [(''artist'', artist_of ''Low''), (''@attr'', JDict [])])]))"

definition out_dir_only :: filesystem where
  "out_dir_only = \<lparr>dirs = {[], [''out'']}, files = Map.empty\<rparr>"

definition root_only :: filesystem where
  "root_only = \<lparr>dirs = {[]}, files = Map.empty\<rparr>"

definition error_reply :: http_reply where
  "error_reply = Response 200 ''OK'' (Some (JDict [(''error'', JInt 6), (''message'', JStr ''User not found'')]))"

definition error_remote :: remote where
  "error_remote n = error_reply"

definition albums_error_remote :: remote where
  "albums_error_remote n =
     (if n = 0
      then Response 200 ''OK''
             (Some (JDict [(''artists'', artists_container [artist_of ''Radiohead''] (JStr ''1''))]))
      else error_reply)"

definition alice_exporter :: exporter where
  "alice_exporter = \<lparr>client_of = alice_client, username = ''alice''\<rparr>"

definition lib_options :: export_options where
  "lib_options =
     \<lparr>output_dir = [''out''], base_name = ''lib'', write_json = True, write_csv = True,
      artists_per_page = 1000, albums_per_page = 1000\<rparr>"

definition alice_albums :: pager where
  "alice_albums =
     \<lparr>method_name = ''library.getalbums'', user = ''alice'', root_key = ''albums'',
      list_key = ''album'', limit_per_page = 1000, extra_params = Some []\<rparr>"

definition kid_a :: json where
  "kid_a = JDict [(''name'', JStr ''Kid A''), (''artist'', JDict [(''name'', JStr ''Radiohead''), (''mbid'', JStr ''x'')]),
                  (''playcount'', JStr ''12'')]"

definition library_remote :: remote where
  "library_remote n =
     (if n < 2 then alice_remote n
      else Response 200 ''OK''
             (Some (JDict [(''albums'',
                JDict [(''album'', kid_a), (''@attr'', JDict [(''totalPages'', JStr ''1'')])])])))"

definition total_remote :: "json \<Rightarrow> remote" where
  "total_remote tp n =
     Response 200 ''OK'' (Some (JDict [(''artists'', artists_container [artist_of ''Radiohead''] tp)]))"

definition nested_options :: export_options where
  "nested_options = lib_options\<lparr>base_name := ''sub/lib''\<rparr>"

section \<open>Properties\<close>

declare iter_loop.simps [simp del]

subsection \<open>Dictionaries\<close>

lemma keys_update: "set (keys (AList.update k v d)) = insert k (set (keys d))"
  by (induction d) (auto simp: keys_def)

lemma keys_dict_update: "set (keys (dict_update d e)) = set (keys d) \<union> set (keys e)"
proof (induction e arbitrary: d)
  case Nil
  then show ?case by (simp add: dict_update_def keys_def)
next
  case (Cons p e)
  obtain k v where p: "p = (k, v)" by (cases p)
  have "dict_update d (p # e) = dict_update (AList.update k v d) e"
    by (simp add: dict_update_def p)
  then have "set (keys (dict_update d (p # e))) = set (keys (AList.update k v d)) \<union> set (keys e)"
    using Cons.IH [of "AList.update k v d"] by simp
  also have "\<dots> = insert k (set (keys d)) \<union> set (keys e)"
    by (simp add: keys_update)
  also have "\<dots> = set (keys d) \<union> set (keys (p # e))"
    by (simp add: keys_def p)
  finally show ?case .
qed

lemma map_of_update_other: "k \<noteq> k' \<Longrightarrow> map_of (AList.update k' v d) k = map_of d k"
  by (simp add: update_conv')

lemma map_of_dict_update_notin:
  "k \<notin> set (keys e) \<Longrightarrow> map_of (dict_update d e) k = map_of d k"
proof (induction e arbitrary: d)
  case Nil
  then show ?case by (simp add: dict_update_def)
next
  case (Cons p e)
  obtain k' v where p: "p = (k', v)" by (cases p)
  from Cons.prems have ne: "k \<noteq> k'" and notin: "k \<notin> set (keys e)"
    by (auto simp: keys_def p)
  have "dict_update d (p # e) = dict_update (AList.update k' v d) e"
    by (simp add: dict_update_def p)
  then show ?case
    using Cons.IH [OF notin, of "AList.update k' v d"] ne by (simp add: update_conv')
qed

lemma map_of_dict_update_in:
  "distinct (keys e) \<Longrightarrow> map_of e k = Some v \<Longrightarrow> map_of (dict_update d e) k = Some v"
proof (induction e arbitrary: d)
  case Nil
  then show ?case by simp
next
  case (Cons p e)
  obtain k' v' where p: "p = (k', v')" by (cases p)
  have step: "dict_update d (p # e) = dict_update (AList.update k' v' d) e"
    by (simp add: dict_update_def p)
  from Cons.prems(1) have dist: "distinct (keys e)" and notin: "k' \<notin> set (keys e)"
    by (auto simp: keys_def p)
  show ?case
  proof (cases "k = k'")
    case True
    with Cons.prems(2) have "v = v'" by (simp add: p)
    then show ?thesis
      using map_of_dict_update_notin [OF notin, of "AList.update k' v' d"] True
      by (simp add: step update_conv')
  next
    case False
    with Cons.prems(2) have "map_of e k = Some v" by (simp add: p)
    from Cons.IH [OF dist this] show ?thesis by (simp add: step)
  qed
qed

lemma distinct_keys_update: "distinct (keys d) \<Longrightarrow> distinct (keys (AList.update k v d))"
  unfolding keys_def by (rule distinct_update)

lemma distinct_keys_dict_update: "distinct (keys d) \<Longrightarrow> distinct (keys (dict_update d e))"
proof (induction e arbitrary: d)
  case Nil
  then show ?case by (simp add: dict_update_def)
next
  case (Cons p e)
  obtain k v where p: "p = (k, v)" by (cases p)
  have "dict_update d (p # e) = dict_update (AList.update k v d) e"
    by (simp add: dict_update_def p)
  then show ?case using Cons.IH [OF distinct_keys_update [OF Cons.prems]] by simp
qed

subsection \<open>Conversion to an integer, and the total of the first page\<close>

lemma int_of_str_failure: "int_of_str s = Inl e \<Longrightarrow> e = ValueError"
  by (auto simp: int_of_str_def Let_def split: option.splits if_splits)

lemma py_int_failures: "py_int v = Inl e \<Longrightarrow> e = TypeError \<or> e = ValueError \<or> e = OverflowError"
  by (cases v) (auto simp: py_int_def dest: int_of_str_failure split: pyfloat.splits)

lemma py_int_overflow: "py_int v = Inl OverflowError \<longleftrightarrow> v = JFloat PosInf \<or> v = JFloat NegInf"
  by (cases v) (auto simp: py_int_def dest: int_of_str_failure split: pyfloat.splits)

lemma absent_total_is_one:
  assumes "map_of attr ''totalPages'' = None" and "map_of attr ''totalpages'' = None"
  shows "first_page_total (JDict ((''@attr'', JDict attr) # rest)) = Inr 1"
  using assms
  by (simp add: first_page_total_def reported_total_def py_get_def dict_get_def truthy_def)

lemma no_attr_total_is_one:
  assumes "map_of d ''@attr'' = None"
  shows "first_page_total (JDict d) = Inr 1"
  using assms
  by (simp add: first_page_total_def reported_total_def py_get_def dict_get_def truthy_def)

lemma unparseable_total_is_one:
  assumes "reported_total container = Inr v"
    and "py_int v = Inl e"
    and "v \<noteq> JFloat PosInf" and "v \<noteq> JFloat NegInf"
  shows "first_page_total container = Inr 1"
proof -
  from assms(2-4) have "e \<noteq> OverflowError" using py_int_overflow by blast
  with py_int_failures [OF assms(2)] have "e = TypeError \<or> e = ValueError" by blast
  then show ?thesis using assms(1,2) by (auto simp: first_page_total_def)
qed

subsection \<open>The pagination loop\<close>

lemma page_params_page:
  assumes "''page'' \<notin> set (keys (case extra_params a of None \<Rightarrow> [] | Some e \<Rightarrow> e))"
  shows "map_of (page_params a p) ''page'' = Some (JInt p)"
  unfolding page_params_def using map_of_dict_update_notin [OF assms] by simp

lemma page_query_page:
  assumes "''page'' \<notin> set (keys (case extra_params a of None \<Rightarrow> [] | Some e \<Rightarrow> e))"
  shows "dict_get (page_query c a p) ''page'' JNull = JInt p"
proof -
  have "distinct (keys (page_params a p))"
    unfolding page_params_def by (rule distinct_keys_dict_update) (simp add: keys_def)
  from map_of_dict_update_in [OF this page_params_page [OF assms]]
  show ?thesis by (simp add: page_query_def request_query_def dict_get_def)
qed

lemma keyword_clash_page_params:
  "keyword_clash (page_params a p) = keyword_clash (page_params a q)"
  by (simp add: keyword_clash_def page_params_def keys_dict_update) (simp add: keys_def)

lemma loop_body_page:
  assumes "\<not> keyword_clash (page_params a (current_page st))"
    and "page_of a (net (length (sent st))) = Some (container, items)"
    and "(case total_pages st of None \<Rightarrow> first_page_total container | Some t \<Rightarrow> Inr t) = Inr t"
  shows "loop_body net c a st =
     (if current_page st \<ge> t
      then (Break, st\<lparr>total_pages := Some t, yielded := yielded st @ items,
                      sent := sent st @ [page_query c a (current_page st)]\<rparr>)
      else (Continue, st\<lparr>current_page := current_page st + 1, total_pages := Some t,
                      yielded := yielded st @ items,
                      sent := sent st @ [page_query c a (current_page st)]\<rparr>))"
  using assms
  by (auto simp: loop_body_def page_of_def request_def page_query_def Let_def
           split: sum.splits option.splits)

lemma loop_body_Continue:
  assumes "loop_body net c a st = (Continue, st')"
  shows "\<exists>t. total_pages st' = Some t \<and> (total_pages st = None \<or> total_pages st = Some t)
           \<and> current_page st' = current_page st + 1 \<and> current_page st < t"
  using assms
  by (auto simp: loop_body_def Let_def split: if_splits prod.splits sum.splits option.splits)

lemma loop_body_yields:
  assumes "\<not> keyword_clash (page_params a (current_page st))"
    and "decode_reply (net (length (sent st))) = Inr data"
    and "page_container a data = Inr container"
    and "page_items a container = Inr items"
  shows "yielded (snd (loop_body net c a st)) = yielded st @ items"
  using assms
  by (simp add: loop_body_def request_def Let_def split: sum.splits option.splits)

lemma loop_body_sent:
  assumes "loop_body net c a st = (ctl, st')"
  shows "(ctl = Raise TypeError \<and> st' = st)
       \<or> (sent st' = sent st @ [page_query c a (current_page st)]
           \<and> (ctl = Continue \<longrightarrow> current_page st' = current_page st + 1)
           \<and> (ctl \<noteq> Continue \<longrightarrow> current_page st' = current_page st))"
  using assms
  by (auto simp: loop_body_def request_def page_query_def Let_def
           split: if_splits sum.splits option.splits)

lemma iter_loop_rest:
  assumes "\<not> keyword_clash (page_params a 1)"
    and "total_pages st = Some t"
    and "current_page st \<le> t"
    and "\<forall>i < Suc k. page_of a (net (length (sent st) + i)) \<noteq> None"
    and "k = nat (t - current_page st)"
  shows "iter_loop net c a st =
     (None, st\<lparr>current_page := t,
              yielded := yielded st @ concat (map (\<lambda>i. reply_items a (net (length (sent st) + i))) [0..<Suc k]),
              sent := sent st @ map (page_query c a) [current_page st..t]\<rparr>)"
  using assms(2-)
proof (induction k arbitrary: st)
  case 0
  then have eq: "current_page st = t" by simp
  from 0 obtain container items where pg: "page_of a (net (length (sent st))) = Some (container, items)"
    by fastforce
  have nc: "\<not> keyword_clash (page_params a (current_page st))"
    using assms(1) keyword_clash_page_params by blast
  have "loop_body net c a st =
      (Break, st\<lparr>total_pages := Some t, yielded := yielded st @ items,
                 sent := sent st @ [page_query c a (current_page st)]\<rparr>)"
    using loop_body_page [of a st net container items t c] nc pg 0(1) eq by simp
  then show ?case
    using 0(1) eq pg by (simp add: iter_loop.simps reply_items_def)
next
  case (Suc k)
  then have lt: "current_page st < t" by linarith
  from Suc.prems obtain container items where pg: "page_of a (net (length (sent st))) = Some (container, items)"
    by fastforce
  have nc: "\<not> keyword_clash (page_params a (current_page st))"
    using assms(1) keyword_clash_page_params by blast
  define st' where "st' = st\<lparr>current_page := current_page st + 1, total_pages := Some t,
                      yielded := yielded st @ items,
                      sent := sent st @ [page_query c a (current_page st)]\<rparr>"
  have body: "loop_body net c a st = (Continue, st')"
    using loop_body_page [of a st net container items t c] nc pg Suc.prems(1) lt
    by (simp add: st'_def)
  have pages': "\<forall>i < Suc k. page_of a (net (length (sent st') + i)) \<noteq> None"
  proof (intro allI impI)
    fix i assume "i < Suc k"
    then have "Suc i < Suc (Suc k)" by simp
    with Suc.prems(3) have "page_of a (net (length (sent st) + Suc i)) \<noteq> None" by blast
    then show "page_of a (net (length (sent st') + i)) \<noteq> None" by (simp add: st'_def)
  qed
  have IH: "iter_loop net c a st' =
     (None, st'\<lparr>current_page := t,
              yielded := yielded st' @ concat (map (\<lambda>i. reply_items a (net (length (sent st') + i))) [0..<Suc k]),
              sent := sent st' @ map (page_query c a) [current_page st'..t]\<rparr>)"
    by (rule Suc.IH) (use Suc.prems lt pages' in \<open>simp_all add: st'_def\<close>)
  have upt: "[0..<Suc (Suc k)] = 0 # map Suc [0..<Suc k]"
    by (simp only: map_Suc_upt upt_conv_Cons [of 0 "Suc (Suc k)"])
  have upto: "[current_page st..t] = current_page st # [current_page st + 1..t]"
    using lt by (simp add: upto_rec1)
  have "iter_loop net c a st = iter_loop net c a st'"
    by (subst iter_loop.simps) (simp add: body)
  also note IH
  finally show ?case
    unfolding upt upto
    using Suc.prems(1) by (simp add: st'_def reply_items_def pg comp_def)
qed

lemma iter_paginated_pages:
  assumes "\<not> keyword_clash (page_params a 1)"
    and "page_of a (net (length hist)) = Some (container, items)"
    and "first_page_total container = Inr t"
    and "\<forall>i < nat (max 1 t). page_of a (net (length hist + i)) \<noteq> None"
  shows "iter_paginated net c a hist =
     (None, \<lparr>current_page = max 1 t, total_pages = Some t,
             yielded = concat (map (\<lambda>i. reply_items a (net (length hist + i))) [0..<nat (max 1 t)]),
             sent = hist @ map (page_query c a) [1..max 1 t]\<rparr>)"
proof -
  define st0 where "st0 = \<lparr>current_page = 1, total_pages = None, yielded = [], sent = hist\<rparr>"
  have body: "loop_body net c a st0 =
     (if 1 \<ge> t
      then (Break, st0\<lparr>total_pages := Some t, yielded := yielded st0 @ items,
                      sent := sent st0 @ [page_query c a 1]\<rparr>)
      else (Continue, st0\<lparr>current_page := 2, total_pages := Some t,
                      yielded := yielded st0 @ items,
                      sent := sent st0 @ [page_query c a 1]\<rparr>))"
    using loop_body_page [of a st0 net container items t c] assms(1-3)
    by (simp add: st0_def)
  show ?thesis
  proof (cases "t \<le> 1")
    case True
    then have m: "max 1 t = 1" by simp
    have "iter_loop net c a st0 =
        (None, st0\<lparr>total_pages := Some t, yielded := yielded st0 @ items,
                      sent := sent st0 @ [page_query c a 1]\<rparr>)"
      by (subst iter_loop.simps) (simp add: body True)
    then show ?thesis
      unfolding iter_paginated_def m
      by (simp add: st0_def reply_items_def assms(2))
  next
    case False
    then have m: "max 1 t = t" by simp
    define st1 where "st1 = st0\<lparr>current_page := 2, total_pages := Some t,
                      yielded := yielded st0 @ items,
                      sent := sent st0 @ [page_query c a 1]\<rparr>"
    define k where "k = nat (t - 2)"
    have k: "nat t = Suc (Suc k)" using False by (simp add: k_def)
    have kk: "k = nat (t - 2)" by (simp add: k_def)
    have pages': "\<forall>i < Suc k. page_of a (net (length (sent st1) + i)) \<noteq> None"
    proof (intro allI impI)
      fix i assume "i < Suc k"
      then have "Suc i < nat (max 1 t)" using k m by simp
      with assms(4) have "page_of a (net (length hist + Suc i)) \<noteq> None" by blast
      then show "page_of a (net (length (sent st1) + i)) \<noteq> None" by (simp add: st1_def st0_def)
    qed
    have rest: "iter_loop net c a st1 =
     (None, st1\<lparr>current_page := t,
              yielded := yielded st1 @ concat (map (\<lambda>i. reply_items a (net (length (sent st1) + i))) [0..<Suc k]),
              sent := sent st1 @ map (page_query c a) [current_page st1..t]\<rparr>)"
      by (rule iter_loop_rest [OF assms(1)]) (use False pages' kk in \<open>simp_all add: st1_def\<close>)
    have upt: "[0..<nat t] = 0 # map Suc [0..<Suc k]"
      unfolding k by (simp only: map_Suc_upt upt_conv_Cons [of 0 "Suc (Suc k)"])
    have upto: "[1..t] = 1 # [2..t]"
      using False by (simp add: upto_rec1)
    have "iter_loop net c a st0 = iter_loop net c a st1"
      by (subst iter_loop.simps) (simp add: body False st1_def)
    also note rest
    finally show ?thesis
      unfolding iter_paginated_def m upt upto
      by (simp add: st1_def st0_def reply_items_def assms(2) comp_def)
  qed
qed

lemma unparseable_total_single_request:
  assumes "\<not> keyword_clash (page_params a 1)"
    and "page_of a (net (length hist)) = Some (container, items)"
    and "reported_total container = Inr v"
    and "py_int v = Inl e"
    and "v \<noteq> JFloat PosInf" and "v \<noteq> JFloat NegInf"
  shows "iter_paginated net c a hist =
           (None, \<lparr>current_page = 1, total_pages = Some 1, yielded = items,
                   sent = hist @ [page_query c a 1]\<rparr>)"
proof -
  have total: "first_page_total container = Inr 1"
    using unparseable_total_is_one [OF assms(3-6)] .
  have pg: "\<forall>i < nat (max 1 1). page_of a (net (length hist + i)) \<noteq> None"
    using assms(2) by simp
  show ?thesis
    using iter_paginated_pages [of a net hist container items 1 c] assms(1,2) total pg
    by (simp add: reply_items_def)
qed

lemma iter_loop_request_fails:
  assumes "\<not> keyword_clash (page_params a (current_page st))"
    and "decode_reply (net (length (sent st))) = Inl e"
  shows "iter_loop net c a st = (Some e, st\<lparr>sent := sent st @ [page_query c a (current_page st)]\<rparr>)"
proof -
  have "loop_body net c a st = (Raise e, st\<lparr>sent := sent st @ [page_query c a (current_page st)]\<rparr>)"
    using assms by (simp add: loop_body_def request_def page_query_def Let_def)
  then show ?thesis by (subst iter_loop.simps) simp
qed

lemma iter_loop_sent:
  "\<exists>n. sent (snd (iter_loop net c a st)) =
         sent st @ map (page_query c a) [current_page st..current_page st + int n - 1]"
proof (induction net c a st rule: iter_loop.induct)
  case (1 net c a st)
  obtain ctl st' where body: "loop_body net c a st = (ctl, st')" by (cases "loop_body net c a st")
  from loop_body_sent [OF body] show ?case
  proof
    assume "ctl = Raise TypeError \<and> st' = st"
    then have "iter_loop net c a st = (Some TypeError, st)"
      using body by (subst iter_loop.simps) simp
    then have "sent (snd (iter_loop net c a st)) =
         sent st @ map (page_query c a) [current_page st..current_page st + int 0 - 1]"
      by simp
    then show ?thesis by blast
  next
    assume step: "sent st' = sent st @ [page_query c a (current_page st)]
           \<and> (ctl = Continue \<longrightarrow> current_page st' = current_page st + 1)
           \<and> (ctl \<noteq> Continue \<longrightarrow> current_page st' = current_page st)"
    show ?thesis
    proof (cases "ctl = Continue")
      case True
      with body have eq: "iter_loop net c a st = iter_loop net c a st'"
        by (subst iter_loop.simps) simp
      from "1.IH" [OF body [symmetric] True] obtain n where
        n: "sent (snd (iter_loop net c a st')) =
              sent st' @ map (page_query c a) [current_page st'..current_page st' + int n - 1]"
        by blast
      have "[current_page st..current_page st + int (Suc n) - 1] =
            current_page st # [current_page st + 1..current_page st + 1 + int n - 1]"
        by (simp add: upto_rec1)
      with n step True eq
      have "sent (snd (iter_loop net c a st)) =
         sent st @ map (page_query c a) [current_page st..current_page st + int (Suc n) - 1]"
        by simp
      then show ?thesis by blast
    next
      case False
      then have "iter_loop net c a st = (case ctl of Break \<Rightarrow> None | Raise e \<Rightarrow> Some e, st')"
        using body by (subst iter_loop.simps) (simp split: control.splits)
      with step have "sent (snd (iter_loop net c a st)) =
         sent st @ map (page_query c a) [current_page st..current_page st + int 1 - 1]"
        by simp
      then show ?thesis by blast
    qed
  qed
qed

lemma iter_paginated_sent:
  "\<exists>n. sent (snd (iter_paginated net c a hist)) = hist @ map (page_query c a) [1..int n]"
  using iter_loop_sent [of net c a "\<lparr>current_page = 1, total_pages = None, yielded = [], sent = hist\<rparr>"]
  by (simp add: iter_paginated_def)

lemma get_user_artists_request_fails:
  assumes "decode_reply (net (length hist)) = Inl e"
  shows "get_user_artists net c u limit hist =
     (Inl e, hist @ [page_query c \<lparr>method_name = ''library.getartists'', user = u,
                       root_key = ''artists'', list_key = ''artist'', limit_per_page = limit,
                       extra_params = None\<rparr> 1])"
proof -
  define a where "a = \<lparr>method_name = ''library.getartists'', user = u,
                       root_key = ''artists'', list_key = ''artist'', limit_per_page = limit,
                       extra_params = None\<rparr>"
  define st where "st = \<lparr>current_page = 1, total_pages = None, yielded = [], sent = hist\<rparr>"
  have nc: "\<not> keyword_clash (page_params a (current_page st))"
    by (simp add: keyword_clash_def page_params_def dict_update_def keys_def a_def)
  have "iter_loop net c a st = (Some e, st\<lparr>sent := sent st @ [page_query c a (current_page st)]\<rparr>)"
    by (rule iter_loop_request_fails [OF nc]) (simp add: st_def assms)
  then show ?thesis
    by (simp add: get_user_artists_def iter_paginated_def a_def [symmetric] st_def)
qed

lemma get_user_albums_request_fails:
  assumes "decode_reply (net (length hist)) = Inl e"
  shows "get_user_albums net c u limit None hist =
     (Inl e, hist @ [page_query c \<lparr>method_name = ''library.getalbums'', user = u,
                       root_key = ''albums'', list_key = ''album'', limit_per_page = limit,
                       extra_params = Some []\<rparr> 1])"
proof -
  define a where "a = \<lparr>method_name = ''library.getalbums'', user = u,
                       root_key = ''albums'', list_key = ''album'', limit_per_page = limit,
                       extra_params = Some []\<rparr>"
  define st where "st = \<lparr>current_page = 1, total_pages = None, yielded = [], sent = hist\<rparr>"
  have nc: "\<not> keyword_clash (page_params a (current_page st))"
    by (simp add: keyword_clash_def page_params_def dict_update_def keys_def a_def)
  have "iter_loop net c a st = (Some e, st\<lparr>sent := sent st @ [page_query c a (current_page st)]\<rparr>)"
    by (rule iter_loop_request_fails [OF nc]) (simp add: st_def assms)
  then show ?thesis
    by (simp add: get_user_albums_def iter_paginated_def a_def [symmetric] st_def)
qed

subsection \<open>The writers\<close>

lemma extract_album_artist_total: "\<exists>cell. extract_album_artist (JDict d) = Inr cell"
  by (cases "dict_get d ''artist'' (JStr '''')")
     (simp_all add: extract_album_artist_def py_get_def is_dict_def is_str_def)

lemma extract_album_artist_cell: "extract_album_artist (JDict d) = Inr (album_artist_cell d)"
  by (simp add: extract_album_artist_def album_artist_cell_def py_get_def dict_get_def
        is_dict_def is_str_def split: option.splits json.splits)

lemma artist_row_cells:
  "artist_row (JDict d) = Inr row \<Longrightarrow> writerow artist_fieldnames row = Inr (artist_cells d)"
  by (auto simp: artist_row_def writerow_def artist_fieldnames_def artist_cells_def keys_def dict_get_def)

lemma album_row_cells:
  "album_row (JDict d) = Inr row \<Longrightarrow> writerow album_fieldnames row = Inr (album_cells d)"
  by (auto simp: album_row_def extract_album_artist_cell writerow_def album_fieldnames_def
        album_cells_def keys_def dict_get_def)

lemma artist_row_dict: "\<exists>row. artist_row (JDict d) = Inr row"
  by (simp add: artist_row_def)

lemma album_row_dict: "\<exists>row. album_row (JDict d) = Inr row"
  by (simp add: album_row_def extract_album_artist_cell)

lemma write_rows_artists:
  "write_rows artist_row artist_fieldnames (map JDict recs) written =
     (None, written @ map artist_cells recs)"
proof (induction recs arbitrary: written)
  case Nil
  then show ?case by simp
next
  case (Cons d recs)
  obtain row where row: "artist_row (JDict d) = Inr row" using artist_row_dict by blast
  show ?case by (simp add: row artist_row_cells [OF row] Cons.IH)
qed

lemma write_rows_albums:
  "write_rows album_row album_fieldnames (map JDict recs) written =
     (None, written @ map album_cells recs)"
proof (induction recs arbitrary: written)
  case Nil
  then show ?case by simp
next
  case (Cons d recs)
  obtain row where row: "album_row (JDict d) = Inr row" using album_row_dict by blast
  show ?case by (simp add: row album_row_cells [OF row] Cons.IH)
qed

lemma write_artists_csv_dicts:
  assumes "p \<notin> dirs fs" and "butlast p \<in> dirs fs" and "p \<noteq> []"
  shows "write_artists_csv (map JDict recs) p fs =
     (None, fs\<lparr>files := (files fs)(p \<mapsto> CsvTable artist_fieldnames (map artist_cells recs))\<rparr>)"
  using assms
  by (simp add: write_artists_csv_def write_csv_file_def open_w_def write_rows_artists)

lemma write_albums_csv_dicts:
  assumes "p \<notin> dirs fs" and "butlast p \<in> dirs fs" and "p \<noteq> []"
  shows "write_albums_csv (map JDict recs) p fs =
     (None, fs\<lparr>files := (files fs)(p \<mapsto> CsvTable album_fieldnames (map album_cells recs))\<rparr>)"
  using assms
  by (simp add: write_albums_csv_def write_csv_file_def open_w_def write_rows_albums)

lemma write_csv_file_other:
  "q \<noteq> p \<Longrightarrow> files (snd (write_csv_file mk fns recs p fs)) q = files fs q"
  by (simp add: write_csv_file_def open_w_def split: prod.splits sum.splits)

lemma mkdir_parents_files:
  "mkdir_parents p fs = Inr fs1 \<Longrightarrow> files fs1 = files fs \<and> dirs fs1 = dirs fs \<union> set (prefixes p)"
  by (auto simp: mkdir_parents_def split: if_splits)

subsection \<open>Paths\<close>

lemma split_slash_Nil [simp]: "split_slash [] = [[]]"
  by (simp add: split_slash_def)

lemma split_slash_Cons:
  "split_slash (c # s) =
     (if c = CHR ''/'' then [] # split_slash s
      else (c # hd (split_slash s)) # tl (split_slash s))"
  by (simp add: split_slash_def)

lemma split_slash_not_Nil [simp]: "split_slash s \<noteq> []"
  by (cases s) (simp_all add: split_slash_Cons)

lemma split_slash_no_slash: "CHR ''/'' \<notin> set s \<Longrightarrow> split_slash s = [s]"
  by (induction s) (auto simp: split_slash_Cons)

lemma split_slash_append:
  assumes "CHR ''/'' \<notin> set s"
  shows "split_slash (b @ s) = butlast (split_slash b) @ [last (split_slash b) @ s]"
proof (induction b)
  case Nil
  then show ?case using assms by (simp add: split_slash_no_slash)
next
  case (Cons c b)
  obtain x xs where x: "split_slash b = x # xs" by (cases "split_slash b") simp_all
  show ?case
  proof (cases "c = CHR ''/''")
    case True
    then show ?thesis using Cons.IH by (simp add: split_slash_Cons)
  next
    case False
    show ?thesis
    proof (cases xs)
      case Nil
      then show ?thesis using Cons.IH False x by (simp add: split_slash_Cons)
    next
      case (Cons y ys)
      then show ?thesis using Cons.IH False x by (simp add: split_slash_Cons)
    qed
  qed
qed

lemma last_join:
  assumes "CHR ''/'' \<notin> set s" and "2 \<le> length s"
  shows "join d (b @ s) \<noteq> [] \<and> last (join d (b @ s)) = last (split_slash b) @ s"
proof -
  define l where "l = last (split_slash b) @ s"
  have "2 \<le> length l" using assms(2) by (simp add: l_def)
  then have l: "l \<noteq> []" "l \<noteq> ''.''" by auto
  have "names_of (b @ s) = filter (\<lambda>n. n \<noteq> [] \<and> n \<noteq> ''.'') (butlast (split_slash b)) @ [l]"
    using l by (simp add: names_of_def split_slash_append [OF assms(1)] l_def [symmetric])
  then show ?thesis
    by (simp add: join_def Let_def l_def)
qed

lemma output_paths_differ:
  "join d (b @ ''.json'') \<noteq> join d (b @ ''_artists.csv'')"
  "join d (b @ ''.json'') \<noteq> join d (b @ ''_albums.csv'')"
  "join d (b @ ''_artists.csv'') \<noteq> join d (b @ ''_albums.csv'')"
proof -
  have j: "last (join d (b @ ''.json'')) = last (split_slash b) @ ''.json''"
    using last_join [of "''.json''" d b] by simp
  have a: "last (join d (b @ ''_artists.csv'')) = last (split_slash b) @ ''_artists.csv''"
    using last_join [of "''_artists.csv''" d b] by simp
  have c: "last (join d (b @ ''_albums.csv'')) = last (split_slash b) @ ''_albums.csv''"
    using last_join [of "''_albums.csv''" d b] by simp
  show "join d (b @ ''.json'') \<noteq> join d (b @ ''_artists.csv'')"
  proof
    assume "join d (b @ ''.json'') = join d (b @ ''_artists.csv'')"
    then have "last (split_slash b) @ ''.json'' = last (split_slash b) @ ''_artists.csv''"
      using j a by simp
    then show False by simp
  qed
  show "join d (b @ ''.json'') \<noteq> join d (b @ ''_albums.csv'')"
  proof
    assume "join d (b @ ''.json'') = join d (b @ ''_albums.csv'')"
    then have "last (split_slash b) @ ''.json'' = last (split_slash b) @ ''_albums.csv''"
      using j c by simp
    then show False by simp
  qed
  show "join d (b @ ''_artists.csv'') \<noteq> join d (b @ ''_albums.csv'')"
  proof
    assume "join d (b @ ''_artists.csv'') = join d (b @ ''_albums.csv'')"
    then have "last (split_slash b) @ ''_artists.csv'' = last (split_slash b) @ ''_albums.csv''"
      using a c by simp
    then show False by simp
  qed
qed

lemma join_plain_name:
  "join [''out''] ''lib.json'' = [''out'', ''lib.json'']"
  "join [''out''] ''lib_artists.csv'' = [''out'', ''lib_artists.csv'']"
  "join [''out''] ''lib_albums.csv'' = [''out'', ''lib_albums.csv'']"
  by (simp_all add: join_def names_of_def split_slash_def)

lemma join_nested_name:
  "join [''out''] ''sub/lib.json'' = [''out'', ''sub'', ''lib.json'']"
  "join [''out''] ''/tmp/lib.json'' = [''/'', ''tmp'', ''lib.json'']"
  by (simp_all add: join_def names_of_def split_slash_def)

subsection \<open>Documents\<close>

lemma dict_update_append:
  "distinct (keys (d @ e)) \<Longrightarrow> dict_update d e = d @ e"
proof (induction e arbitrary: d)
  case Nil
  then show ?case by (simp add: dict_update_def)
next
  case (Cons p e)
  obtain k v where p: "p = (k, v)" by (cases p)
  have k: "k \<notin> fst ` set d" using Cons.prems by (auto simp: keys_def p)
  have u: "AList.update k v d = d @ [(k, v)]"
    using k by (induction d) auto
  have "dict_update d (p # e) = dict_update (d @ [(k, v)]) e"
    by (simp add: dict_update_def p u)
  also have "\<dots> = (d @ [(k, v)]) @ e"
    using Cons.prems by (intro Cons.IH) (simp add: keys_def p)
  finally show ?case by (simp add: p)
qed

lemma decode_encode: "distinct_names v \<Longrightarrow> decode (encode v) = v"
proof (induction v)
  case (JList xs)
  then show ?case by (simp add: map_idI)
next
  case (JDict d)
  have "map_prod id decode (map_prod id encode p) = p" if "p \<in> set d" for p
  proof -
    obtain k v where p: "p = (k, v)" by (cases p)
    with that JDict.prems have "distinct_names v" by auto
    with JDict.IH [of p v] that p show ?thesis by simp
  qed
  then have "map (map_prod id decode) (map (map_prod id encode) d) = d"
    by (simp add: map_idI)
  moreover have "dict_update [] d = d"
    using JDict.prems dict_update_append [of "[]" d] by simp
  ultimately show ?case by simp
qed simp_all

lemma encode_readable: "ints_printable v \<Longrightarrow> ints_readable (encode v)"
proof (induction v)
  case (JDict d)
  show ?case
  proof (simp, intro ballI, goal_cases)
    case (1 p)
    obtain k v where p: "p = (k, v)" by (cases p)
    with 1 JDict.prems have "ints_printable v" by auto
    with JDict.IH [of p v] 1 p show ?case by simp
  qed
qed auto

lemma json_load_dump:
  assumes "json_dump v = Inr t" and "distinct_names v"
  shows "json_load t = Inr v"
proof -
  from assms(1) have "ints_printable v" "t = encode v"
    by (auto simp: json_dump_def split: if_splits)
  then show ?thesis
    using encode_readable [of v] decode_encode [OF assms(2)] by (simp add: json_load_def)
qed

text \<open>
  On concrete values: the member named twice, the values of every kind, and the
  integer one digit beyond the limit.
\<close>

lemma decode_repeated_name:
  "decode (TObject [(''a'', TInt 1), (''b'', TInt 2), (''a'', TInt 3)]) =
     JDict [(''a'', JInt 3), (''b'', JInt 2)]"
  by (simp add: dict_update_def)

lemma within_digit_limit_small: "\<bar>n\<bar> < 10 \<Longrightarrow> within_digit_limit n"
proof -
  assume "\<bar>n\<bar> < 10"
  moreover have "(10 :: int) ^ 1 \<le> 10 ^ int_max_str_digits"
    by (rule power_increasing) (simp_all add: int_max_str_digits_def)
  ultimately show ?thesis by (simp add: within_digit_limit_def)
qed

lemma round_trip_values:
  "json_dump (JList [JNull, JBool True, JInt 1, JFloat (Finite 1), JFloat NaN, JFloat PosInf,
                     JStr ''a'', JDict [(''b'', JInt 2), (''a'', JList [])]]) =
     Inr (TArray [TNull, TBool True, TInt 1, TFloat (Finite 1), TFloat NaN, TFloat PosInf,
                  TString ''a'', TObject [(''b'', TInt 2), (''a'', TArray [])]])"
  "json_load (TArray [TNull, TBool True, TInt 1, TFloat (Finite 1), TFloat NaN, TFloat PosInf,
                      TString ''a'', TObject [(''b'', TInt 2), (''a'', TArray [])]]) =
     Inr (JList [JNull, JBool True, JInt 1, JFloat (Finite 1), JFloat NaN, JFloat PosInf,
                 JStr ''a'', JDict [(''b'', JInt 2), (''a'', JList [])]])"
  by (simp_all add: json_dump_def json_load_def within_digit_limit_small dict_update_def)

lemma json_dump_large_int:
  "json_dump (JList [JInt (10 ^ int_max_str_digits)]) = Inl ValueError"
  by (simp add: json_dump_def within_digit_limit_def)

subsection \<open>The document of an export\<close>

lemma write_artists_csv_other:
  "write_artists_csv artists p fs = (r, fs') \<Longrightarrow> q \<noteq> p \<Longrightarrow> files fs' q = files fs q"
  using write_csv_file_other [of q p artist_row artist_fieldnames artists fs]
  by (simp add: write_artists_csv_def)

lemma write_albums_csv_other:
  "write_albums_csv albums p fs = (r, fs') \<Longrightarrow> q \<noteq> p \<Longrightarrow> files fs' q = files fs q"
  using write_csv_file_other [of q p album_row album_fieldnames albums fs]
  by (simp add: write_albums_csv_def)

lemma write_json_file_normal:
  "write_json_file payload p fs = (None, fs') \<Longrightarrow>
     \<exists>t. json_dump payload = Inr t \<and> files fs' p = Some (JsonDocument t)"
  by (auto simp: write_json_file_def split: sum.splits)

lemma write_outputs_json_file:
  assumes "write_json opts"
    and "write_json_file payload (join (output_dir opts) (base_name opts @ ''.json'')) fs = (None, fs')"
  shows "files (snd (write_outputs opts payload artists albums fs))
           (join (output_dir opts) (base_name opts @ ''.json'')) =
         files fs' (join (output_dir opts) (base_name opts @ ''.json''))"
proof -
  define jp where "jp = join (output_dir opts) (base_name opts @ ''.json'')"
  define ap where "ap = join (output_dir opts) (base_name opts @ ''_artists.csv'')"
  define bp where "bp = join (output_dir opts) (base_name opts @ ''_albums.csv'')"
  have ne: "jp \<noteq> ap" "jp \<noteq> bp"
    unfolding jp_def ap_def bp_def by (rule output_paths_differ)+
  obtain e2 fs2 where w2: "write_artists_csv artists ap fs' = (e2, fs2)" by (cases "write_artists_csv artists ap fs'")
  obtain e3 fs3 where w3: "write_albums_csv albums bp fs2 = (e3, fs3)" by (cases "write_albums_csv albums bp fs2")
  have f2: "files fs2 jp = files fs' jp" using write_artists_csv_other [OF w2 ne(1)] .
  have f3: "files fs3 jp = files fs' jp" using write_albums_csv_other [OF w3 ne(2)] f2 by simp
  show ?thesis
    unfolding jp_def [symmetric]
    using assms(1) assms(2) [unfolded jp_def [symmetric]] w2 w3 f2 f3
    by (auto simp: write_outputs_def Let_def jp_def [symmetric] ap_def [symmetric] bp_def [symmetric]
             split: prod.splits option.splits)
qed

lemma write_outputs_normal:
  assumes "write_outputs opts payload artists albums fs = (Inr res, fs')"
    and "write_json opts"
  shows "json_path res = Some (join (output_dir opts) (base_name opts @ ''.json'')) \<and>
         (\<exists>t. json_dump payload = Inr t \<and>
              files fs' (join (output_dir opts) (base_name opts @ ''.json'')) = Some (JsonDocument t))"
proof -
  define jp where "jp = join (output_dir opts) (base_name opts @ ''.json'')"
  obtain e1 fs1 where w1: "write_json_file payload jp fs = (e1, fs1)"
    by (cases "write_json_file payload jp fs")
  have e1: "e1 = None"
    using assms w1 by (cases e1) (simp_all add: write_outputs_def Let_def jp_def [symmetric])
  from write_json_file_normal [OF w1 [unfolded e1]]
  obtain t where t: "json_dump payload = Inr t" "files fs1 jp = Some (JsonDocument t)" by blast
  have "files (snd (write_outputs opts payload artists albums fs)) jp = files fs1 jp"
    unfolding jp_def
    by (rule write_outputs_json_file [OF assms(2)]) (use w1 e1 in \<open>simp add: jp_def\<close>)
  then have f: "files fs' jp = Some (JsonDocument t)" using assms(1) t(2) by simp
  have "json_path res = Some jp"
    using assms w1 e1
    by (auto simp: write_outputs_def Let_def jp_def [symmetric] split: prod.splits option.splits if_splits)
  with t(1) f show ?thesis by (auto simp: jp_def)
qed

lemma distinct_names_payload:
  "distinct_names (JList artists) \<Longrightarrow> distinct_names (JList albums) \<Longrightarrow>
     distinct_names (export_payload u now artists albums)"
  by (simp add: export_payload_def keys_def)

lemma export_json_document:
  assumes "mkdir_parents (output_dir opts) fs = Inr fs'"
    and "get_user_artists net (client_of ex) (username ex) (artists_per_page opts) hist = (Inr artists, hist')"
    and "get_user_albums net (client_of ex) (username ex) (albums_per_page opts) None hist' = (Inr albums, hist'')"
    and "write_json opts"
    and "write_json_file (export_payload (username ex) now artists albums)
           (join (output_dir opts) (base_name opts @ ''.json'')) fs' = (None, fs'')"
  shows "files (snd (snd (export_library net ex now opts (hist, fs))))
           (join (output_dir opts) (base_name opts @ ''.json'')) =
         Some (JsonDocument (encode (export_payload (username ex) now artists albums)))"
proof -
  have "snd (snd (export_library net ex now opts (hist, fs))) =
        snd (write_outputs opts (export_payload (username ex) now artists albums) artists albums fs')"
    using assms(1-3) by (simp add: export_library_def case_prod_beta)
  moreover from write_json_file_normal [OF assms(5)]
  have "files fs'' (join (output_dir opts) (base_name opts @ ''.json'')) =
          Some (JsonDocument (encode (export_payload (username ex) now artists albums)))"
    by (auto simp: json_dump_def split: if_splits)
  ultimately show ?thesis
    using write_outputs_json_file [OF assms(4,5), of artists albums] by simp
qed

subsection \<open>The model on concrete data\<close>

lemmas eval_defs =
  page_of_def decode_reply_def response_ok_def page_container_def page_items_def py_get_def
  dict_get_def keys_def is_dict_def py_iter_def reported_total_def truthy_def
  keyword_clash_def page_params_def dict_update_def page_query_def request_query_def reply_items_def

lemma digit_value_ascii: "digit_value 48 = Some 0" "digit_value 49 = Some 1" "digit_value 50 = Some 2"
  by (simp_all add: digit_value_def decimal_zeros_def)

lemma int_of_str_2: "int_of_str ''2'' = Inr 2"
proof -
  have "code_points ''2'' = Some [50]" by (simp add: code_points_def)
  moreover have "strip [50] = [50]" by (simp add: strip_def is_space_def)
  ultimately show ?thesis
    by (simp add: int_of_str_def is_digit_def digit_value_ascii digits_value_def int_max_str_digits_def)
qed

lemma int_of_str_0: "int_of_str ''0'' = Inr 0"
proof -
  have "code_points ''0'' = Some [48]" by (simp add: code_points_def)
  moreover have "strip [48] = [48]" by (simp add: strip_def is_space_def)
  ultimately show ?thesis
    by (simp add: int_of_str_def is_digit_def digit_value_ascii digits_value_def int_max_str_digits_def)
qed

lemma int_of_str_1: "int_of_str ''1'' = Inr 1"
proof -
  have "code_points ''1'' = Some [49]" by (simp add: code_points_def)
  moreover have "strip [49] = [49]" by (simp add: strip_def is_space_def)
  ultimately show ?thesis
    by (simp add: int_of_str_def is_digit_def digit_value_ascii digits_value_def int_max_str_digits_def)
qed

text \<open>
  The separator U+001C is no white space to \<^verbatim>\<open>int\<close>: \<^verbatim>\<open>int("\x1c2")\<close> raises. The
  Arabic-Indic digit two (U+0662, the bytes D9 A2) converts to 2, also after a sign and
  before a no-break space (U+00A0, the bytes C2 A0).
\<close>

lemma int_of_str_separator: "int_of_str [CHR 0x1C, CHR ''2''] = Inl ValueError"
proof -
  have "code_points [CHR 0x1C, CHR ''2''] = Some [28, 50]" by (simp add: code_points_def)
  moreover have "strip [28, 50] = [28, 50]" by (simp add: strip_def is_space_def)
  moreover have "digit_value 28 = None" by (simp add: digit_value_def decimal_zeros_def)
  ultimately show ?thesis
    by (simp add: int_of_str_def is_digit_def)
qed

lemma int_of_str_arabic_indic:
  "int_of_str [CHR 0xD9, CHR 0xA2] = Inr 2"
  "int_of_str [CHR ''-'', CHR 0xD9, CHR 0xA2, CHR 0xC2, CHR 0xA0] = Inr (- 2)"
proof -
  have d: "digit_value 1634 = Some 2" by (simp add: digit_value_def decimal_zeros_def)
  have "code_points [CHR 0xD9, CHR 0xA2] = Some [1634]"
    by (simp add: code_points_def continuation_def)
  moreover have "strip [1634] = [1634]" by (simp add: strip_def is_space_def)
  ultimately show "int_of_str [CHR 0xD9, CHR 0xA2] = Inr 2"
    by (simp add: int_of_str_def is_digit_def d digits_value_def int_max_str_digits_def)
  have "code_points [CHR ''-'', CHR 0xD9, CHR 0xA2, CHR 0xC2, CHR 0xA0] = Some [45, 1634, 160]"
    by (simp add: code_points_def continuation_def)
  moreover have "strip [45, 1634, 160] = [45, 1634]" by (simp add: strip_def is_space_def)
  ultimately show "int_of_str [CHR ''-'', CHR 0xD9, CHR 0xA2, CHR 0xC2, CHR 0xA0] = Inr (- 2)"
    by (simp add: int_of_str_def is_digit_def d digits_value_def int_max_str_digits_def)
qed

text \<open>
  Two totals on which \<^verbatim>\<open>int\<close> is easily misread. \<^verbatim>\<open>"\x1c2"\<close> is no integer: the total is
  1 and one request is sent. The Arabic-Indic digit two is the integer 2: two
  requests are sent.
\<close>

lemma separator_total_one_request:
  "iter_paginated (total_remote (JStr [CHR 0x1C, CHR ''2''])) alice_client alice_artists [] =
     (None, \<lparr>current_page = 1, total_pages = Some 1, yielded = [artist_of ''Radiohead''],
             sent = [page_query alice_client alice_artists 1]\<rparr>)"
proof -
  define tp where "tp = JStr [CHR 0x1C, CHR ''2'']"
  have p0: "page_of alice_artists (total_remote tp (length ([] :: dict list))) =
     Some (artists_container [artist_of ''Radiohead''] tp, [artist_of ''Radiohead''])"
    by (simp add: eval_defs alice_artists_def total_remote_def artists_container_def)
  have h1: "\<not> keyword_clash (page_params alice_artists 1)"
    by (simp add: eval_defs alice_artists_def)
  have h2: "reported_total (artists_container [artist_of ''Radiohead''] tp) = Inr tp"
    by (simp add: eval_defs artists_container_def tp_def)
  have h3: "py_int tp = Inl ValueError"
    by (simp add: tp_def py_int_def int_of_str_separator)
  have h4: "tp \<noteq> JFloat PosInf" "tp \<noteq> JFloat NegInf" by (simp_all add: tp_def)
  show ?thesis
    using unparseable_total_single_request
            [where a = alice_artists and net = "total_remote tp" and hist = "[]" and c = alice_client,
             OF h1 p0 h2 h3 h4]
    by (simp add: tp_def)
qed

lemma arabic_indic_total_two_requests:
  "iter_paginated (total_remote (JStr [CHR 0xD9, CHR 0xA2])) alice_client alice_artists [] =
     (None, \<lparr>current_page = 2, total_pages = Some 2,
             yielded = [artist_of ''Radiohead'', artist_of ''Radiohead''],
             sent = [page_query alice_client alice_artists 1, page_query alice_client alice_artists 2]\<rparr>)"
proof -
  define tp where "tp = JStr [CHR 0xD9, CHR 0xA2]"
  have p: "page_of alice_artists (total_remote tp n) =
     Some (artists_container [artist_of ''Radiohead''] tp, [artist_of ''Radiohead''])" for n
    by (simp add: eval_defs alice_artists_def total_remote_def artists_container_def)
  have h1: "\<not> keyword_clash (page_params alice_artists 1)"
    by (simp add: eval_defs alice_artists_def)
  have h3: "first_page_total (artists_container [artist_of ''Radiohead''] tp) = Inr 2"
    by (simp add: first_page_total_def eval_defs artists_container_def py_int_def tp_def
          int_of_str_arabic_indic)
  have h4: "\<forall>i < nat (max 1 2). page_of alice_artists (total_remote tp (length ([] :: dict list) + i)) \<noteq> None"
    by (simp add: p)
  have upt: "[0..<2] = [0, Suc 0]" by (simp add: numeral_2_eq_2)
  have upto: "[1..2::int] = [1, 2]" by (simp add: upto_rec1)
  show ?thesis
    using iter_paginated_pages [where a = alice_artists and net = "total_remote tp" and hist = "[]"
            and c = alice_client and t = 2, OF h1 p h3 h4]
    by (simp add: reply_items_def upt upto p) (simp add: tp_def)
qed

lemma decode_error_reply:
  "decode_reply error_reply = Inl (LastFMError (ApiError (JInt 6) (JStr ''User not found'')))"
  by (simp add: error_reply_def decode_reply_def response_ok_def keys_def dict_get_def)

lemma mkdir_out: "mkdir_parents [''out''] root_only = Inr \<lparr>dirs = {[], [''out'']}, files = Map.empty\<rparr>"
  by (auto simp: mkdir_parents_def root_only_def)

lemma albums_error_artists:
  "get_user_artists albums_error_remote alice_client ''alice'' 1000 [] =
     (Inr [artist_of ''Radiohead''], [page_query alice_client alice_artists 1])"
proof -
  have p0: "page_of alice_artists (albums_error_remote (length ([] :: dict list))) =
     Some (artists_container [artist_of ''Radiohead''] (JStr ''1''), [artist_of ''Radiohead''])"
    by (simp add: eval_defs alice_artists_def albums_error_remote_def artists_container_def)
  have h1: "\<not> keyword_clash (page_params alice_artists 1)"
    by (simp add: eval_defs alice_artists_def)
  have h3: "first_page_total (artists_container [artist_of ''Radiohead''] (JStr ''1'')) = Inr 1"
    by (simp add: first_page_total_def eval_defs artists_container_def py_int_def int_of_str_1)
  have h4: "\<forall>i < nat (max 1 1). page_of alice_artists (albums_error_remote (length ([] :: dict list) + i)) \<noteq> None"
    using p0 by simp
  have "iter_paginated albums_error_remote alice_client alice_artists [] =
      (None, \<lparr>current_page = 1, total_pages = Some 1, yielded = [artist_of ''Radiohead''],
              sent = [page_query alice_client alice_artists 1]\<rparr>)"
    using iter_paginated_pages [where a = alice_artists and net = albums_error_remote and hist = "[]"
            and c = alice_client and t = 1, OF h1 p0 h3 h4] p0
    by (simp add: reply_items_def)
  then show ?thesis
    by (simp add: get_user_artists_def alice_artists_def [symmetric])
qed

lemma library_artists:
  "get_user_artists library_remote alice_client ''alice'' 1000 [] =
     (Inr [artist_of ''Radiohead'', artist_of ''Low'', artist_of ''Can''],
      [page_query alice_client alice_artists 1, page_query alice_client alice_artists 2])"
proof -
  have p0: "page_of alice_artists (library_remote (length ([] :: dict list))) =
     Some (artists_container [artist_of ''Radiohead'', artist_of ''Low''] (JStr ''2''),
           [artist_of ''Radiohead'', artist_of ''Low''])"
    by (simp add: eval_defs alice_artists_def library_remote_def alice_remote_def artists_container_def)
  have p1: "page_of alice_artists (library_remote (Suc 0)) =
     Some (artists_container [artist_of ''Can''] (JStr ''2''), [artist_of ''Can''])"
    by (simp add: eval_defs alice_artists_def library_remote_def alice_remote_def artists_container_def)
  have h1: "\<not> keyword_clash (page_params alice_artists 1)"
    by (simp add: eval_defs alice_artists_def)
  have h3: "first_page_total (artists_container [artist_of ''Radiohead'', artist_of ''Low''] (JStr ''2'')) = Inr 2"
    by (simp add: first_page_total_def eval_defs artists_container_def py_int_def int_of_str_2)
  have h4: "\<forall>i < nat (max 1 2). page_of alice_artists (library_remote (length ([] :: dict list) + i)) \<noteq> None"
  proof (intro allI impI)
    fix i :: nat assume "i < nat (max 1 2)"
    then have "i = 0 \<or> i = Suc 0" by auto
    then show "page_of alice_artists (library_remote (length ([] :: dict list) + i)) \<noteq> None"
      using p0 p1 by auto
  qed
  have upt: "[0..<2] = [0, Suc 0]" by (simp add: numeral_2_eq_2)
  have upto: "[1..2::int] = [1, 2]" by (simp add: upto_rec1)
  have "iter_paginated library_remote alice_client alice_artists [] =
      (None, \<lparr>current_page = 2, total_pages = Some 2,
              yielded = [artist_of ''Radiohead'', artist_of ''Low'', artist_of ''Can''],
              sent = [page_query alice_client alice_artists 1, page_query alice_client alice_artists 2]\<rparr>)"
    using iter_paginated_pages [where a = alice_artists and net = library_remote and hist = "[]"
            and c = alice_client and t = 2, OF h1 p0 h3 h4] p0 p1
    by (simp add: reply_items_def upt upto)
  then show ?thesis
    by (simp add: get_user_artists_def alice_artists_def [symmetric])
qed

lemma library_albums:
  "get_user_albums library_remote alice_client ''alice'' 1000 None
       [page_query alice_client alice_artists 1, page_query alice_client alice_artists 2] =
     (Inr [kid_a],
      [page_query alice_client alice_artists 1, page_query alice_client alice_artists 2,
       page_query alice_client alice_albums 1])"
proof -
  define hist where "hist = [page_query alice_client alice_artists 1, page_query alice_client alice_artists 2]"
  define container where
    "container = JDict [(''album'', kid_a), (''@attr'', JDict [(''totalPages'', JStr ''1'')])]"
  have len: "length hist = 2" by (simp add: hist_def)
  have p0: "page_of alice_albums (library_remote (length hist)) = Some (container, [kid_a])"
    unfolding len
    by (simp add: eval_defs alice_albums_def library_remote_def container_def kid_a_def)
  have h1: "\<not> keyword_clash (page_params alice_albums 1)"
    by (simp add: eval_defs alice_albums_def)
  have h3: "first_page_total container = Inr 1"
    by (simp add: first_page_total_def eval_defs container_def py_int_def int_of_str_1)
  have h4: "\<forall>i < nat (max 1 1). page_of alice_albums (library_remote (length hist + i)) \<noteq> None"
    using p0 by simp
  have "iter_paginated library_remote alice_client alice_albums hist =
      (None, \<lparr>current_page = 1, total_pages = Some 1, yielded = [kid_a],
              sent = hist @ [page_query alice_client alice_albums 1]\<rparr>)"
    using iter_paginated_pages [where a = alice_albums and net = library_remote and hist = hist
            and c = alice_client and t = 1, OF h1 p0 h3 h4] p0
    by (simp add: reply_items_def)
  then show ?thesis
    by (simp add: get_user_albums_def alice_albums_def [symmetric] hist_def)
qed

lemma library_export:
  "export_library library_remote alice_exporter ''2026-01-01T00:00:00+00:00'' lib_options ([], root_only) =
     (Inr \<lparr>artists_count = 3, albums_count = 1,
           json_path = Some [''out'', ''lib.json''],
           artists_csv_path = Some [''out'', ''lib_artists.csv''],
           albums_csv_path = Some [''out'', ''lib_albums.csv'']\<rparr>,
      [page_query alice_client alice_artists 1, page_query alice_client alice_artists 2,
       page_query alice_client alice_albums 1],
      \<lparr>dirs = {[], [''out'']},
       files = [[''out'', ''lib.json''] \<mapsto>
                  JsonDocument (encode (JDict [(''user'', JStr ''alice''),
                                       (''exported_at'', JStr ''2026-01-01T00:00:00+00:00''),
                                       (''artists'', JList [artist_of ''Radiohead'', artist_of ''Low'', artist_of ''Can'']),
                                       (''albums'', JList [kid_a])])),
                [''out'', ''lib_artists.csv''] \<mapsto>
                  CsvTable [''name'', ''mbid'', ''playcount'', ''url'', ''streamable'', ''tagcount'']
                    [[JStr ''Radiohead'', JStr '''', JStr ''7'', JStr '''', JStr '''', JStr ''''],
                     [JStr ''Low'', JStr '''', JStr ''7'', JStr '''', JStr '''', JStr ''''],
                     [JStr ''Can'', JStr '''', JStr ''7'', JStr '''', JStr '''', JStr '''']],
                [''out'', ''lib_albums.csv''] \<mapsto>
                  CsvTable [''name'', ''artist'', ''mbid'', ''playcount'', ''url'']
                    [[JStr ''Kid A'', JStr ''Radiohead'', JStr '''', JStr ''12'', JStr '''']]]\<rparr>)"
proof -
  define artists where "artists = [artist_of ''Radiohead'', artist_of ''Low'', artist_of ''Can'']"
  define payload where
    "payload = export_payload ''alice'' ''2026-01-01T00:00:00+00:00'' artists [kid_a]"
  define jp where "jp = [''out'', ''lib.json'']"
  define ap where "ap = [''out'', ''lib_artists.csv'']"
  define bp where "bp = [''out'', ''lib_albums.csv'']"
  define fs0 where "fs0 = \<lparr>dirs = {[], [''out'']}, files = (Map.empty :: path \<rightharpoonup> content)\<rparr>"
  define fs1 where "fs1 = fs0\<lparr>files := (files fs0)(jp \<mapsto> JsonDocument (encode payload))\<rparr>"
  define fs2 where "fs2 = fs1\<lparr>files := (files fs1)(ap \<mapsto>
     CsvTable [''name'', ''mbid'', ''playcount'', ''url'', ''streamable'', ''tagcount'']
        [[JStr ''Radiohead'', JStr '''', JStr ''7'', JStr '''', JStr '''', JStr ''''],
         [JStr ''Low'', JStr '''', JStr ''7'', JStr '''', JStr '''', JStr ''''],
         [JStr ''Can'', JStr '''', JStr ''7'', JStr '''', JStr '''', JStr '''']])\<rparr>"
  define fs3 where "fs3 = fs2\<lparr>files := (files fs2)(bp \<mapsto>
     CsvTable [''name'', ''artist'', ''mbid'', ''playcount'', ''url'']
        [[JStr ''Kid A'', JStr ''Radiohead'', JStr '''', JStr ''12'', JStr '''']])\<rparr>"
  have "ints_printable payload"
    by (simp add: payload_def export_payload_def artists_def artist_of_def kid_a_def)
  then have wj: "write_json_file payload jp fs0 = (None, fs1)"
    by (simp add: write_json_file_def json_dump_def open_w_def fs0_def fs1_def jp_def)
  have wa: "write_artists_csv artists ap fs1 = (None, fs2)"
    using write_artists_csv_dicts [where p = ap and fs = fs1 and
        recs = "[[(''name'', JStr ''Radiohead''), (''playcount'', JStr ''7'')],
                 [(''name'', JStr ''Low''), (''playcount'', JStr ''7'')],
                 [(''name'', JStr ''Can''), (''playcount'', JStr ''7'')]]"]
    by (simp add: artists_def artist_of_def artist_cells_def dict_get_def artist_fieldnames_def
          fs0_def fs1_def fs2_def ap_def)
  have wb: "write_albums_csv [kid_a] bp fs2 = (None, fs3)"
    using write_albums_csv_dicts [where p = bp and fs = fs2 and
        recs = "[[(''name'', JStr ''Kid A''),
                  (''artist'', JDict [(''name'', JStr ''Radiohead''), (''mbid'', JStr ''x'')]),
                  (''playcount'', JStr ''12'')]]"]
    by (simp add: kid_a_def album_cells_def album_artist_cell_def dict_get_def album_fieldnames_def
          fs0_def fs1_def fs2_def fs3_def bp_def)
  have paths: "join (output_dir lib_options) (base_name lib_options @ ''.json'') = jp"
      "join (output_dir lib_options) (base_name lib_options @ ''_artists.csv'') = ap"
      "join (output_dir lib_options) (base_name lib_options @ ''_albums.csv'') = bp"
    by (simp_all add: join_plain_name lib_options_def jp_def ap_def bp_def)
  have flags: "write_json lib_options" "write_csv lib_options"
    by (simp_all add: lib_options_def)
  have out: "write_outputs lib_options payload artists [kid_a] fs0 =
     (Inr \<lparr>artists_count = 3, albums_count = 1, json_path = Some jp,
           artists_csv_path = Some ap, albums_csv_path = Some bp\<rparr>, fs3)"
    by (simp add: write_outputs_def paths flags wj wa wb) (simp add: artists_def)
  have m: "mkdir_parents (output_dir lib_options) root_only = Inr fs0"
    using mkdir_out by (simp add: lib_options_def fs0_def)
  have ga: "get_user_artists library_remote (client_of alice_exporter) (username alice_exporter)
              (artists_per_page lib_options) [] =
            (Inr artists, [page_query alice_client alice_artists 1, page_query alice_client alice_artists 2])"
    using library_artists by (simp add: alice_exporter_def lib_options_def artists_def)
  have gb: "get_user_albums library_remote (client_of alice_exporter) (username alice_exporter)
              (albums_per_page lib_options) None
              [page_query alice_client alice_artists 1, page_query alice_client alice_artists 2] =
            (Inr [kid_a],
             [page_query alice_client alice_artists 1, page_query alice_client alice_artists 2,
              page_query alice_client alice_albums 1])"
    using library_albums by (simp add: alice_exporter_def lib_options_def)
  have user: "username alice_exporter = ''alice''" by (simp add: alice_exporter_def)
  have "export_library library_remote alice_exporter ''2026-01-01T00:00:00+00:00'' lib_options ([], root_only) =
     (Inr \<lparr>artists_count = 3, albums_count = 1, json_path = Some jp,
           artists_csv_path = Some ap, albums_csv_path = Some bp\<rparr>,
      [page_query alice_client alice_artists 1, page_query alice_client alice_artists 2,
       page_query alice_client alice_albums 1], fs3)"
    by (simp add: export_library_def m ga gb) (simp add: user payload_def [symmetric] out)
  then show ?thesis
    by (simp add: fs3_def fs2_def fs1_def fs0_def jp_def ap_def bp_def payload_def
          export_payload_def artists_def)
qed

text \<open>
  A base name with a slash names a file in a subdirectory, which \<^verbatim>\<open>export_library\<close> does
  not create: the fetches are made, then opening the document fails
  (\<^verbatim>\<open>FileNotFoundError\<close>, an \<^verbatim>\<open>OSError\<close>), and no file is written.
\<close>

lemma nested_base_name_fails:
  "export_library library_remote alice_exporter ''2026-01-01T00:00:00+00:00'' nested_options ([], root_only) =
     (Inl OSError,
      [page_query alice_client alice_artists 1, page_query alice_client alice_artists 2,
       page_query alice_client alice_albums 1],
      \<lparr>dirs = {[], [''out'']}, files = Map.empty\<rparr>)"
proof -
  define fs0 where "fs0 = \<lparr>dirs = {[], [''out'']}, files = (Map.empty :: path \<rightharpoonup> content)\<rparr>"
  have m: "mkdir_parents (output_dir nested_options) root_only = Inr fs0"
    using mkdir_out by (simp add: nested_options_def lib_options_def fs0_def)
  have ga: "get_user_artists library_remote (client_of alice_exporter) (username alice_exporter)
              (artists_per_page nested_options) [] =
            (Inr [artist_of ''Radiohead'', artist_of ''Low'', artist_of ''Can''],
             [page_query alice_client alice_artists 1, page_query alice_client alice_artists 2])"
    using library_artists by (simp add: alice_exporter_def nested_options_def lib_options_def)
  have gb: "get_user_albums library_remote (client_of alice_exporter) (username alice_exporter)
              (albums_per_page nested_options) None
              [page_query alice_client alice_artists 1, page_query alice_client alice_artists 2] =
            (Inr [kid_a],
             [page_query alice_client alice_artists 1, page_query alice_client alice_artists 2,
              page_query alice_client alice_albums 1])"
    using library_albums by (simp add: alice_exporter_def nested_options_def lib_options_def)
  have "open_w [''out'', ''sub'', ''lib.json''] fs0 = Inl OSError"
    by (simp add: open_w_def fs0_def)
  then have out: "write_outputs nested_options payload artists albums fs0 = (Inl OSError, fs0)"
    for payload artists albums
    by (simp add: write_outputs_def Let_def write_json_file_def nested_options_def lib_options_def
          join_nested_name)
  show ?thesis
    by (simp add: export_library_def m ga gb out) (simp add: fs0_def)
qed

section \<open>The claims\<close>

text \<open>
  C1. When the first page reports a total of \<open>P \<ge> 1\<close> pages (the value the code selects
  from \<^verbatim>\<open>@attr\<close> converts to \<open>P\<close>) and the first \<open>P\<close> replies are pages, the generator ends
  normally after exactly \<open>P\<close> requests, the \<open>k\<close>-th being the query built for page \<open>k\<close>,
  and yields the items of pages \<open>1\<close> to \<open>P\<close> in page order. Unless the extra parameters
  rebind \<^verbatim>\<open>page\<close>, the \<^verbatim>\<open>page\<close> parameters sent are \<open>1, \<dots>, P\<close> in this order.
\<close>

theorem paginated_requests_and_items:
  assumes "\<not> keyword_clash (page_params a 1)"
    and "page_of a (net (length hist)) = Some (container, items)"
    and "reported_total container = Inr v"
    and "py_int v = Inr P"
    and "1 \<le> P"
    and "\<forall>i < nat P. page_of a (net (length hist + i)) \<noteq> None"
  shows "iter_paginated net c a hist =
           (None, \<lparr>current_page = P, total_pages = Some P,
                   yielded = concat (map (\<lambda>i. reply_items a (net (length hist + i))) [0..<nat P]),
                   sent = hist @ map (page_query c a) [1..P]\<rparr>)
         \<and> length (map (page_query c a) [1..P]) = nat P
         \<and> (''page'' \<notin> set (keys (case extra_params a of None \<Rightarrow> [] | Some e \<Rightarrow> e))
              \<longrightarrow> map (\<lambda>q. dict_get q ''page'' JNull) (map (page_query c a) [1..P]) = map JInt [1..P])"
proof -
  have nn: "v \<noteq> JNull" using assms(4) by (auto simp: py_int_def)
  have total: "first_page_total container = Inr P"
    using assms(3,4) nn by (simp add: first_page_total_def)
  have m: "max 1 P = P" using assms(5) by simp
  have run: "iter_paginated net c a hist =
           (None, \<lparr>current_page = P, total_pages = Some P,
                   yielded = concat (map (\<lambda>i. reply_items a (net (length hist + i))) [0..<nat P]),
                   sent = hist @ map (page_query c a) [1..P]\<rparr>)"
    using iter_paginated_pages [of a net hist container items P c] assms(1,2,6) total
    by (simp add: m)
  have len: "length (map (page_query c a) [1..P]) = nat P"
    using assms(5) by simp
  have pages: "map (\<lambda>q. dict_get q ''page'' JNull) (map (page_query c a) [1..P]) = map JInt [1..P]"
    if "''page'' \<notin> set (keys (case extra_params a of None \<Rightarrow> [] | Some e \<Rightarrow> e))"
    using page_query_page [OF that] by simp
  from run len pages show ?thesis by blast
qed

theorem paginated_requests_and_items_witness:
  "page_of alice_artists (alice_remote 0) =
     Some (artists_container [artist_of ''Radiohead'', artist_of ''Low''] (JStr ''2''),
           [artist_of ''Radiohead'', artist_of ''Low''])
   \<and> page_of alice_artists (alice_remote 1) \<noteq> None
   \<and> iter_paginated alice_remote alice_client alice_artists [] =
       (None, \<lparr>current_page = 2, total_pages = Some 2,
               yielded = [artist_of ''Radiohead'', artist_of ''Low'', artist_of ''Can''],
               sent = [page_query alice_client alice_artists 1, page_query alice_client alice_artists 2]\<rparr>)
   \<and> map (\<lambda>q. dict_get q ''page'' JNull) [page_query alice_client alice_artists 1, page_query alice_client alice_artists 2]
       = [JInt 1, JInt 2]"
proof -
  have p0: "page_of alice_artists (alice_remote 0) =
     Some (artists_container [artist_of ''Radiohead'', artist_of ''Low''] (JStr ''2''),
           [artist_of ''Radiohead'', artist_of ''Low''])"
    by (simp add: eval_defs alice_artists_def alice_remote_def artists_container_def)
  have p1: "page_of alice_artists (alice_remote 1) =
     Some (artists_container [artist_of ''Can''] (JStr ''2''), [artist_of ''Can''])"
    by (simp add: eval_defs alice_artists_def alice_remote_def artists_container_def)
  have h1: "\<not> keyword_clash (page_params alice_artists 1)"
    by (simp add: eval_defs alice_artists_def)
  have h3: "reported_total (artists_container [artist_of ''Radiohead'', artist_of ''Low''] (JStr ''2'')) = Inr (JStr ''2'')"
    by (simp add: eval_defs artists_container_def)
  have h4: "py_int (JStr ''2'') = Inr 2"
    by (simp add: py_int_def int_of_str_2)
  have h6: "\<forall>i < nat 2. page_of alice_artists (alice_remote (length ([] :: dict list) + i)) \<noteq> None"
  proof (intro allI impI)
    fix i :: nat assume "i < nat 2"
    then have "i = 0 \<or> i = 1" by auto
    then show "page_of alice_artists (alice_remote (length ([] :: dict list) + i)) \<noteq> None"
      using p0 p1 by auto
  qed
  have np: "''page'' \<notin> set (keys (case extra_params alice_artists of None \<Rightarrow> [] | Some e \<Rightarrow> e))"
    by (simp add: alice_artists_def keys_def)
  have upt: "[0..<2] = [0, Suc 0]" by (simp add: numeral_2_eq_2)
  have upto: "[1..2::int] = [1, 2]" by (simp add: upto_rec1)
  from paginated_requests_and_items
         [where a = alice_artists and net = alice_remote and hist = "[]" and c = alice_client
            and P = 2 and v = "JStr ''2''", OF h1 _ h3 h4 _ h6]
    p0 p1 np
  show ?thesis
    by (simp add: upt upto reply_items_def)
qed

text \<open>
  C2. Once the output directory exists, a failure of either fetch ends \<^verbatim>\<open>export_library\<close>
  with that same exception; the file system is the one \<^verbatim>\<open>mkdir\<close> left, with the files it had
  before and the directory and its parents added. A response whose body has an \<^verbatim>\<open>error\<close>
  field is such a failure: \<^verbatim>\<open>_request\<close> raises \<open>LastFMError\<close> for it, and so does the fetch
  that receives it as its first reply.
\<close>

theorem fetch_failure_writes_no_file:
  "(mkdir_parents (output_dir opts) fs = Inr fs'
      \<and> get_user_artists net (client_of ex) (username ex) (artists_per_page opts) hist = (Inl e, hist')
    \<longrightarrow> export_library net ex now opts (hist, fs) = (Inl e, hist', fs')
        \<and> files fs' = files fs \<and> dirs fs' = dirs fs \<union> set (prefixes (output_dir opts)))
   \<and> (mkdir_parents (output_dir opts) fs = Inr fs'
      \<and> get_user_artists net (client_of ex) (username ex) (artists_per_page opts) hist = (Inr artists, hist')
      \<and> get_user_albums net (client_of ex) (username ex) (albums_per_page opts) None hist' = (Inl e, hist'')
    \<longrightarrow> export_library net ex now opts (hist, fs) = (Inl e, hist'', fs')
        \<and> files fs' = files fs \<and> dirs fs' = dirs fs \<union> set (prefixes (output_dir opts)))
   \<and> (response_ok status \<and> ''error'' \<in> set (keys d)
    \<longrightarrow> decode_reply (Response status reason (Some (JDict d))) =
          Inl (LastFMError (ApiError (dict_get d ''error'' JNull)
                              (dict_get d ''message'' (JStr ''Unknown Last.fm error'')))))
   \<and> (decode_reply (net (length hist)) = Inl e
    \<longrightarrow> fst (get_user_artists net (client_of ex) (username ex) (artists_per_page opts) hist) = Inl e)"
proof (intro conjI impI)
  assume h: "mkdir_parents (output_dir opts) fs = Inr fs'
      \<and> get_user_artists net (client_of ex) (username ex) (artists_per_page opts) hist = (Inl e, hist')"
  then show "export_library net ex now opts (hist, fs) = (Inl e, hist', fs')"
    by (simp add: export_library_def)
  from h mkdir_parents_files show "files fs' = files fs" by blast
  from h mkdir_parents_files show "dirs fs' = dirs fs \<union> set (prefixes (output_dir opts))" by blast
next
  assume h: "mkdir_parents (output_dir opts) fs = Inr fs'
      \<and> get_user_artists net (client_of ex) (username ex) (artists_per_page opts) hist = (Inr artists, hist')
      \<and> get_user_albums net (client_of ex) (username ex) (albums_per_page opts) None hist' = (Inl e, hist'')"
  then show "export_library net ex now opts (hist, fs) = (Inl e, hist'', fs')"
    by (simp add: export_library_def)
  from h mkdir_parents_files show "files fs' = files fs" by blast
  from h mkdir_parents_files show "dirs fs' = dirs fs \<union> set (prefixes (output_dir opts))" by blast
next
  assume "response_ok status \<and> ''error'' \<in> set (keys d)"
  then show "decode_reply (Response status reason (Some (JDict d))) =
          Inl (LastFMError (ApiError (dict_get d ''error'' JNull)
                              (dict_get d ''message'' (JStr ''Unknown Last.fm error''))))"
    by (simp add: decode_reply_def)
next
  assume "decode_reply (net (length hist)) = Inl e"
  then show "fst (get_user_artists net (client_of ex) (username ex) (artists_per_page opts) hist) = Inl e"
    by (simp add: get_user_artists_request_fails)
qed

theorem fetch_failure_writes_no_file_witness:
  "export_library error_remote alice_exporter ''2026-01-01T00:00:00+00:00'' lib_options ([], root_only) =
     (Inl (LastFMError (ApiError (JInt 6) (JStr ''User not found''))),
      [page_query alice_client alice_artists 1],
      \<lparr>dirs = {[], [''out'']}, files = Map.empty\<rparr>)
   \<and> export_library albums_error_remote alice_exporter ''2026-01-01T00:00:00+00:00'' lib_options
        ([], root_only) =
     (Inl (LastFMError (ApiError (JInt 6) (JStr ''User not found''))),
      [page_query alice_client alice_artists 1, page_query alice_client alice_albums 1],
      \<lparr>dirs = {[], [''out'']}, files = Map.empty\<rparr>)
   \<and> decode_reply error_reply = Inl (LastFMError (ApiError (JInt 6) (JStr ''User not found'')))
   \<and> fst (get_user_artists error_remote alice_client ''alice'' 1000 []) =
       Inl (LastFMError (ApiError (JInt 6) (JStr ''User not found'')))"
proof -
  define e where "e = LastFMError (ApiError (JInt 6) (JStr ''User not found''))"
  define fs1 where "fs1 = \<lparr>dirs = {[], [''out'']}, files = (Map.empty :: path \<rightharpoonup> content)\<rparr>"
  have mk: "mkdir_parents (output_dir lib_options) root_only = Inr fs1"
    using mkdir_out by (simp add: lib_options_def fs1_def)
  have dec: "decode_reply (error_remote (length ([] :: dict list))) = Inl e"
    by (simp add: error_remote_def decode_error_reply e_def)
  have art1: "get_user_artists error_remote (client_of alice_exporter) (username alice_exporter)
                (artists_per_page lib_options) [] = (Inl e, [page_query alice_client alice_artists 1])"
    using get_user_artists_request_fails
            [where net = error_remote and hist = "[]" and c = alice_client and u = "''alice''"
               and limit = 1000, OF dec]
    by (simp add: alice_exporter_def lib_options_def alice_artists_def)
  have art2: "get_user_artists albums_error_remote (client_of alice_exporter) (username alice_exporter)
                (artists_per_page lib_options) [] =
              (Inr [artist_of ''Radiohead''], [page_query alice_client alice_artists 1])"
    using albums_error_artists by (simp add: alice_exporter_def lib_options_def)
  have dec2: "decode_reply (albums_error_remote (length [page_query alice_client alice_artists 1])) = Inl e"
    by (simp add: albums_error_remote_def decode_error_reply e_def)
  have alb2: "get_user_albums albums_error_remote (client_of alice_exporter) (username alice_exporter)
                (albums_per_page lib_options) None [page_query alice_client alice_artists 1] =
              (Inl e, [page_query alice_client alice_artists 1, page_query alice_client alice_albums 1])"
    using get_user_albums_request_fails
            [where net = albums_error_remote and hist = "[page_query alice_client alice_artists 1]"
               and c = alice_client and u = "''alice''" and limit = 1000, OF dec2]
    by (simp add: alice_exporter_def lib_options_def alice_albums_def)
  have ok: "response_ok 200 \<and> ''error'' \<in> set (keys [(''error'', JInt 6), (''message'', JStr ''User not found'')])"
    by (simp add: response_ok_def keys_def)
  note c1 = fetch_failure_writes_no_file
      [where net = error_remote and ex = alice_exporter and opts = lib_options and hist = "[]"
         and fs = root_only and fs' = fs1 and e = e
         and hist' = "[page_query alice_client alice_artists 1]", THEN conjunct1, THEN mp,
       OF conjI [OF mk art1], THEN conjunct1]
  note c2 = fetch_failure_writes_no_file
      [where net = albums_error_remote and ex = alice_exporter and opts = lib_options and hist = "[]"
         and fs = root_only and fs' = fs1 and e = e and artists = "[artist_of ''Radiohead'']"
         and hist' = "[page_query alice_client alice_artists 1]"
         and hist'' = "[page_query alice_client alice_artists 1, page_query alice_client alice_albums 1]",
       THEN conjunct2, THEN conjunct1, THEN mp, OF conjI [OF mk conjI [OF art2 alb2]], THEN conjunct1]
  note c3 = fetch_failure_writes_no_file
      [where status = 200 and d = "[(''error'', JInt 6), (''message'', JStr ''User not found'')]"
         and reason = "''OK''",
       THEN conjunct2, THEN conjunct2, THEN conjunct1, THEN mp, OF ok]
  note c4 = fetch_failure_writes_no_file
      [where net = error_remote and hist = "[]" and e = e and ex = alice_exporter and opts = lib_options,
       THEN conjunct2, THEN conjunct2, THEN conjunct2, THEN mp, OF dec]
  from c1 c2 c3 c4 show ?thesis
    by (simp add: e_def fs1_def error_reply_def dict_get_def alice_exporter_def lib_options_def)
qed

text \<open>
  C3. The artist cell of an album row, for an album record \<open>d\<close>: a string under
  \<^verbatim>\<open>artist\<close> is the cell; a mapping under \<^verbatim>\<open>artist\<close> gives the value of its \<^verbatim>\<open>name\<close>
  field, and the empty string when it has none; no \<^verbatim>\<open>artist\<close> field, or a value that
  is neither a string nor a mapping, gives the empty string. The function never
  raises on a record, and its result is the \<^verbatim>\<open>artist\<close> entry of the row handed to the
  writer. The three examples of the specification are the last three conjuncts.
\<close>

theorem album_artist_normalization:
  "(map_of d ''artist'' = Some (JStr s) \<longrightarrow> extract_album_artist (JDict d) = Inr (JStr s))
   \<and> (map_of d ''artist'' = Some (JDict m) \<and> map_of m ''name'' = Some v
        \<longrightarrow> extract_album_artist (JDict d) = Inr v)
   \<and> (map_of d ''artist'' = Some (JDict m) \<and> ''name'' \<notin> set (keys m)
        \<longrightarrow> extract_album_artist (JDict d) = Inr (JStr ''''))
   \<and> (''artist'' \<notin> set (keys d) \<longrightarrow> extract_album_artist (JDict d) = Inr (JStr ''''))
   \<and> (map_of d ''artist'' = Some w \<and> \<not> is_dict w \<and> \<not> is_str w
        \<longrightarrow> extract_album_artist (JDict d) = Inr (JStr ''''))
   \<and> (\<exists>cell. extract_album_artist (JDict d) = Inr cell
          \<and> album_row (JDict d) =
              Inr [(''name'', dict_get d ''name'' (JStr '''')),
                   (''artist'', cell),
                   (''mbid'', dict_get d ''mbid'' (JStr '''')),
                   (''playcount'', dict_get d ''playcount'' (JStr '''')),
                   (''url'', dict_get d ''url'' (JStr ''''))])
   \<and> extract_album_artist (JDict [(''artist'', JStr ''Radiohead'')]) = Inr (JStr ''Radiohead'')
   \<and> extract_album_artist
         (JDict [(''artist'', JDict [(''name'', JStr ''Radiohead''), (''mbid'', JStr ''x'')])])
       = Inr (JStr ''Radiohead'')
   \<and> extract_album_artist (JDict [(''name'', JStr ''Kid A'')]) = Inr (JStr '''')"
proof (intro conjI impI)
  show "extract_album_artist (JDict d) = Inr (JStr s)" if "map_of d ''artist'' = Some (JStr s)"
    using that by (simp add: extract_album_artist_def py_get_def dict_get_def is_dict_def is_str_def)
  show "extract_album_artist (JDict d) = Inr v"
    if "map_of d ''artist'' = Some (JDict m) \<and> map_of m ''name'' = Some v"
    using that by (simp add: extract_album_artist_def py_get_def dict_get_def is_dict_def)
  show "extract_album_artist (JDict d) = Inr (JStr '''')"
    if "map_of d ''artist'' = Some (JDict m) \<and> ''name'' \<notin> set (keys m)"
  proof -
    from that have "map_of m ''name'' = None" by (simp add: keys_def map_of_eq_None_iff)
    with that show ?thesis
      by (simp add: extract_album_artist_def py_get_def dict_get_def is_dict_def)
  qed
  show "extract_album_artist (JDict d) = Inr (JStr '''')" if "''artist'' \<notin> set (keys d)"
  proof -
    from that have "map_of d ''artist'' = None" by (simp add: keys_def map_of_eq_None_iff)
    then show ?thesis
      by (simp add: extract_album_artist_def py_get_def dict_get_def is_dict_def is_str_def)
  qed
  show "extract_album_artist (JDict d) = Inr (JStr '''')"
    if "map_of d ''artist'' = Some w \<and> \<not> is_dict w \<and> \<not> is_str w"
    using that by (simp add: extract_album_artist_def py_get_def dict_get_def)
  show "\<exists>cell. extract_album_artist (JDict d) = Inr cell
          \<and> album_row (JDict d) =
              Inr [(''name'', dict_get d ''name'' (JStr '''')),
                   (''artist'', cell),
                   (''mbid'', dict_get d ''mbid'' (JStr '''')),
                   (''playcount'', dict_get d ''playcount'' (JStr '''')),
                   (''url'', dict_get d ''url'' (JStr ''''))]"
  proof -
    obtain cell where cell: "extract_album_artist (JDict d) = Inr cell"
      using extract_album_artist_total by blast
    then show ?thesis by (simp add: album_row_def)
  qed
  show "extract_album_artist (JDict [(''artist'', JStr ''Radiohead'')]) = Inr (JStr ''Radiohead'')"
    by (simp add: extract_album_artist_def py_get_def dict_get_def is_dict_def is_str_def)
  show "extract_album_artist
         (JDict [(''artist'', JDict [(''name'', JStr ''Radiohead''), (''mbid'', JStr ''x'')])])
       = Inr (JStr ''Radiohead'')"
    by (simp add: extract_album_artist_def py_get_def dict_get_def is_dict_def is_str_def)
  show "extract_album_artist (JDict [(''name'', JStr ''Kid A'')]) = Inr (JStr '''')"
    by (simp add: extract_album_artist_def py_get_def dict_get_def is_dict_def is_str_def)
qed

theorem album_artist_normalization_witness:
  "extract_album_artist (JDict [(''name'', JStr ''Kid A''), (''artist'', JStr ''Radiohead'')])
     = Inr (JStr ''Radiohead'')
   \<and> extract_album_artist
        (JDict [(''name'', JStr ''Kid A''), (''artist'', JDict [(''mbid'', JStr ''x''), (''name'', JStr ''Radiohead'')])])
     = Inr (JStr ''Radiohead'')
   \<and> extract_album_artist (JDict [(''name'', JStr ''Kid A''), (''artist'', JDict [(''mbid'', JStr ''x'')])])
     = Inr (JStr '''')
   \<and> extract_album_artist (JDict [(''name'', JStr ''Kid A''), (''mbid'', JStr ''x'')]) = Inr (JStr '''')
   \<and> extract_album_artist (JDict [(''name'', JStr ''Kid A''), (''artist'', JInt 7)]) = Inr (JStr '''')"
proof -
  have 1: "map_of [(''name'', JStr ''Kid A''), (''artist'', JStr ''Radiohead'')] ''artist''
           = Some (JStr ''Radiohead'')" by simp
  have 2: "map_of [(''name'', JStr ''Kid A''), (''artist'', JDict [(''mbid'', JStr ''x''), (''name'', JStr ''Radiohead'')])] ''artist''
           = Some (JDict [(''mbid'', JStr ''x''), (''name'', JStr ''Radiohead'')])
         \<and> map_of [(''mbid'', JStr ''x''), (''name'', JStr ''Radiohead'')] ''name'' = Some (JStr ''Radiohead'')"
    by simp
  have 3: "map_of [(''name'', JStr ''Kid A''), (''artist'', JDict [(''mbid'', JStr ''x'')])] ''artist''
           = Some (JDict [(''mbid'', JStr ''x'')])
         \<and> ''name'' \<notin> set (keys [(''mbid'', JStr ''x'')])"
    by (simp add: keys_def)
  have 4: "''artist'' \<notin> set (keys [(''name'', JStr ''Kid A''), (''mbid'', JStr ''x'')])"
    by (simp add: keys_def)
  have 5: "map_of [(''name'', JStr ''Kid A''), (''artist'', JInt 7)] ''artist'' = Some (JInt 7)
         \<and> \<not> is_dict (JInt 7) \<and> \<not> is_str (JInt 7)"
    by (simp add: is_dict_def is_str_def)
  note c1 = album_artist_normalization [THEN conjunct1, THEN mp, OF 1]
  note c2 = album_artist_normalization [THEN conjunct2, THEN conjunct1, THEN mp, OF 2]
  note c3 = album_artist_normalization [THEN conjunct2, THEN conjunct2, THEN conjunct1, THEN mp, OF 3]
  note c4 = album_artist_normalization
              [THEN conjunct2, THEN conjunct2, THEN conjunct2, THEN conjunct1, THEN mp, OF 4]
  note c5 = album_artist_normalization
              [THEN conjunct2, THEN conjunct2, THEN conjunct2, THEN conjunct2, THEN conjunct1, THEN mp, OF 5]
  from c1 c2 c3 c4 c5 show ?thesis by (intro conjI)
qed

text \<open>
  C4. Round trip of the structured document. Take a run of \<^verbatim>\<open>export_library\<close> that
  writes the document and returns: \<open>artists\<close> and \<open>albums\<close> are the lists the two
  fetches returned. Then the file at the path the result reports, read back with
  \<^verbatim>\<open>json.load\<close>, is the mapping with exactly the keys \<^verbatim>\<open>user\<close>, \<^verbatim>\<open>exported_at\<close>,
  \<^verbatim>\<open>artists\<close>, \<^verbatim>\<open>albums\<close>, in this order, and its two lists are the lists passed in:
  the same records in the same order, each with the same fields in the same order
  and the same values (an int as an int, a float as the same float, not-a-number
  as not-a-number). The CSV files written after it leave the document as it is.
  \<open>distinct_names\<close> says of the association lists what holds of every dict: no
  key twice.
\<close>

theorem json_document_round_trip:
  assumes "get_user_artists net (client_of ex) (username ex) (artists_per_page opts) hist = (Inr artists, hist')"
    and "get_user_albums net (client_of ex) (username ex) (albums_per_page opts) None hist' = (Inr albums, hist'')"
    and "export_library net ex now opts (hist, fs) = (Inr res, h, fs')"
    and "write_json opts"
    and "distinct_names (JList artists)" and "distinct_names (JList albums)"
  shows "json_path res = Some (join (output_dir opts) (base_name opts @ ''.json'')) \<and>
         read_json (join (output_dir opts) (base_name opts @ ''.json'')) fs' =
           Inr (JDict [(''user'', JStr (username ex)), (''exported_at'', JStr now),
                       (''artists'', JList artists), (''albums'', JList albums)])"
proof -
  define payload where "payload = export_payload (username ex) now artists albums"
  obtain fs1 where m: "mkdir_parents (output_dir opts) fs = Inr fs1"
    using assms(3) by (cases "mkdir_parents (output_dir opts) fs") (simp_all add: export_library_def)
  have "write_outputs opts payload artists albums fs1 = (Inr res, fs')"
    using assms(1-3) m by (simp add: export_library_def payload_def split: prod.splits)
  from write_outputs_normal [OF this assms(4)]
  obtain t where p: "json_path res = Some (join (output_dir opts) (base_name opts @ ''.json''))"
    and t: "json_dump payload = Inr t"
    and f: "files fs' (join (output_dir opts) (base_name opts @ ''.json'')) = Some (JsonDocument t)"
    by blast
  have "json_load t = Inr payload"
    using json_load_dump [OF t] distinct_names_payload [OF assms(5,6)] by (simp add: payload_def)
  then show ?thesis
    using p f by (simp add: read_json_def payload_def export_payload_def)
qed

theorem json_document_round_trip_witness:
  "fst (export_library library_remote alice_exporter ''2026-01-01T00:00:00+00:00'' lib_options ([], root_only)) =
     Inr \<lparr>artists_count = 3, albums_count = 1,
          json_path = Some [''out'', ''lib.json''],
          artists_csv_path = Some [''out'', ''lib_artists.csv''],
          albums_csv_path = Some [''out'', ''lib_albums.csv'']\<rparr>
   \<and> read_json [''out'', ''lib.json'']
        (snd (snd (export_library library_remote alice_exporter ''2026-01-01T00:00:00+00:00'' lib_options
                     ([], root_only)))) =
       Inr (JDict [(''user'', JStr ''alice''),
                   (''exported_at'', JStr ''2026-01-01T00:00:00+00:00''),
                   (''artists'', JList [artist_of ''Radiohead'', artist_of ''Low'', artist_of ''Can'']),
                   (''albums'', JList [kid_a])])"
proof -
  have ga: "get_user_artists library_remote (client_of alice_exporter) (username alice_exporter)
              (artists_per_page lib_options) [] =
            (Inr [artist_of ''Radiohead'', artist_of ''Low'', artist_of ''Can''],
             [page_query alice_client alice_artists 1, page_query alice_client alice_artists 2])"
    using library_artists by (simp add: alice_exporter_def lib_options_def)
  have gb: "get_user_albums library_remote (client_of alice_exporter) (username alice_exporter)
              (albums_per_page lib_options) None
              [page_query alice_client alice_artists 1, page_query alice_client alice_artists 2] =
            (Inr [kid_a],
             [page_query alice_client alice_artists 1, page_query alice_client alice_artists 2,
              page_query alice_client alice_albums 1])"
    using library_albums by (simp add: alice_exporter_def lib_options_def)
  have d1: "distinct_names (JList [artist_of ''Radiohead'', artist_of ''Low'', artist_of ''Can''])"
    by (simp add: artist_of_def keys_def)
  have d2: "distinct_names (JList [kid_a])"
    by (simp add: kid_a_def keys_def)
  have wj: "write_json lib_options" by (simp add: lib_options_def)
  have jp: "join (output_dir lib_options) (base_name lib_options @ ''.json'') = [''out'', ''lib.json'']"
    by (simp add: lib_options_def join_plain_name)
  have user: "username alice_exporter = ''alice''" by (simp add: alice_exporter_def)
  show ?thesis
    using json_document_round_trip [OF ga gb library_export wj d1 d2]
    by (simp only: jp user library_export fst_conv snd_conv simp_thms)
qed

text \<open>
  C5. Whatever the generator's state \<open>st\<close> (any page number, any items already yielded):
  when the data returned by \<^verbatim>\<open>_request\<close> is a mapping without the key \<open>root_key\<close>, the
  generator ends with \<open>LastFMError\<close>, whose message names the key and the method. The
  request for this page is the last one sent, and nothing of the page is yielded.
\<close>

theorem missing_root_key_is_fatal:
  assumes "\<not> keyword_clash (page_params a (current_page st))"
    and "decode_reply (net (length (sent st))) = Inr (JDict d)"
    and "root_key a \<notin> set (keys d)"
  shows "iter_loop net c a st =
           (Some (LastFMError (UnexpectedResponse
                    (''Unexpected response: key '' @ [CHR 0x27] @ root_key a @ [CHR 0x27]
                       @ '' missing for method '' @ method_name a))),
            st\<lparr>sent := sent st @ [page_query c a (current_page st)]\<rparr>)"
proof -
  have "map_of d (root_key a) = None"
    using assms(3) by (simp add: keys_def map_of_eq_None_iff)
  then have "page_container a (JDict d) =
      Inl (LastFMError (UnexpectedResponse (missing_key_message a)))"
    by (simp add: page_container_def py_get_def dict_get_def)
  then have "loop_body net c a st =
      (Raise (LastFMError (UnexpectedResponse (missing_key_message a))),
       st\<lparr>sent := sent st @ [page_query c a (current_page st)]\<rparr>)"
    using assms(1,2) by (simp add: loop_body_def request_def page_query_def Let_def)
  then show ?thesis
    by (subst iter_loop.simps) (simp add: missing_key_message_def)
qed

theorem missing_root_key_is_fatal_witness:
  "decode_reply (broken_remote 1) = Inr (JDict [(''status'', JStr ''ok'')])
   \<and> iter_paginated broken_remote alice_client alice_artists [] =
       (Some (LastFMError (UnexpectedResponse
                ''Unexpected response: key 'artists' missing for method library.getartists'')),
        \<lparr>current_page = 2, total_pages = Some 2,
         yielded = [artist_of ''Radiohead'', artist_of ''Low''],
         sent = [page_query alice_client alice_artists 1, page_query alice_client alice_artists 2]\<rparr>)"
proof -
  define st0 where "st0 = \<lparr>current_page = 1, total_pages = None, yielded = [], sent = ([] :: dict list)\<rparr>"
  define st where "st = \<lparr>current_page = 2, total_pages = Some 2,
         yielded = [artist_of ''Radiohead'', artist_of ''Low''],
         sent = [page_query alice_client alice_artists 1]\<rparr>"
  have nc: "\<not> keyword_clash (page_params alice_artists p)" for p
    by (simp add: eval_defs alice_artists_def)
  have p0: "page_of alice_artists (broken_remote (length (sent st0))) =
     Some (artists_container [artist_of ''Radiohead'', artist_of ''Low''] (JStr ''2''),
           [artist_of ''Radiohead'', artist_of ''Low''])"
    by (simp add: st0_def eval_defs alice_artists_def broken_remote_def alice_remote_def
          artists_container_def)
  have t0: "(case total_pages st0 of
               None \<Rightarrow> first_page_total
                          (artists_container [artist_of ''Radiohead'', artist_of ''Low''] (JStr ''2''))
             | Some t \<Rightarrow> Inr t) = Inr 2"
    by (simp add: st0_def first_page_total_def eval_defs artists_container_def py_int_def int_of_str_2)
  have first: "loop_body broken_remote alice_client alice_artists st0 = (Continue, st)"
    using loop_body_page [where net = broken_remote and st = st0 and c = alice_client, OF nc p0 t0]
    by (simp add: st0_def st_def)
  have h2: "decode_reply (broken_remote (length (sent st))) = Inr (JDict [(''status'', JStr ''ok'')])"
    by (simp add: st_def broken_remote_def decode_reply_def response_ok_def keys_def)
  have h3: "root_key alice_artists \<notin> set (keys [(''status'', JStr ''ok'')])"
    by (simp add: alice_artists_def keys_def)
  have "iter_paginated broken_remote alice_client alice_artists [] =
        iter_loop broken_remote alice_client alice_artists st"
    unfolding iter_paginated_def st0_def [symmetric]
    by (subst iter_loop.simps) (simp add: first)
  with missing_root_key_is_fatal
         [where net = broken_remote and st = st and c = alice_client, OF nc h2 h3] h2
  show ?thesis
    by (simp add: st_def alice_artists_def)
qed


text \<open>
  C6. The items of a page, for a container \<open>d\<close>: a single mapping under the item key is
  the one item of the page; without the item key the page has no items and the
  extraction does not raise; a list under the item key gives its elements in order.
  What the extraction returns is what one pass of the loop appends to the items
  yielded.
\<close>

theorem page_item_extraction:
  "(map_of d (list_key a) = Some (JDict m) \<longrightarrow> page_items a (JDict d) = Inr [JDict m])
   \<and> (list_key a \<notin> set (keys d) \<longrightarrow> page_items a (JDict d) = Inr [])
   \<and> (map_of d (list_key a) = Some (JList xs) \<longrightarrow> page_items a (JDict d) = Inr xs)
   \<and> (\<not> keyword_clash (page_params a (current_page st))
        \<and> decode_reply (net (length (sent st))) = Inr data
        \<and> page_container a data = Inr (JDict d)
        \<and> page_items a (JDict d) = Inr items
      \<longrightarrow> yielded (snd (loop_body net c a st)) = yielded st @ items)"
proof (intro conjI impI)
  show "page_items a (JDict d) = Inr [JDict m]" if "map_of d (list_key a) = Some (JDict m)"
    using that by (simp add: page_items_def py_get_def dict_get_def is_dict_def py_iter_def)
  show "page_items a (JDict d) = Inr []" if "list_key a \<notin> set (keys d)"
  proof -
    from that have "map_of d (list_key a) = None"
      by (simp add: keys_def map_of_eq_None_iff)
    then show ?thesis
      by (simp add: page_items_def py_get_def dict_get_def is_dict_def py_iter_def)
  qed
  show "page_items a (JDict d) = Inr xs" if "map_of d (list_key a) = Some (JList xs)"
    using that by (simp add: page_items_def py_get_def dict_get_def is_dict_def py_iter_def)
  show "yielded (snd (loop_body net c a st)) = yielded st @ items"
    if "\<not> keyword_clash (page_params a (current_page st))
        \<and> decode_reply (net (length (sent st))) = Inr data
        \<and> page_container a data = Inr (JDict d)
        \<and> page_items a (JDict d) = Inr items"
    using that loop_body_yields [of a st net data "JDict d" items c] by blast
qed

theorem page_item_extraction_witness:
  "page_items alice_artists (JDict [(''artist'', artist_of ''Low''), (''@attr'', JDict [])])
     = Inr [artist_of ''Low'']
   \<and> page_items alice_artists (JDict [(''@attr'', JDict [])]) = Inr []
   \<and> page_items alice_artists (JDict [(''artist'', JList [artist_of ''Low'', artist_of ''Can''])])
     = Inr [artist_of ''Low'', artist_of ''Can'']
   \<and> yielded (snd (loop_body single_item_remote alice_client alice_artists
                      \<lparr>current_page = 1, total_pages = None, yielded = [], sent = []\<rparr>))
     = [artist_of ''Low'']"
proof -
  define st where "st = \<lparr>current_page = 1, total_pages = None, yielded = [], sent = ([] :: dict list)\<rparr>"
  define d1 where "d1 = [(''artist'', artist_of ''Low''), (''@attr'', JDict [])]"
  have lk: "list_key alice_artists = ''artist''" by (simp add: alice_artists_def)
  have a1: "map_of d1 (list_key alice_artists)
            = Some (JDict [(''name'', JStr ''Low''), (''playcount'', JStr ''7'')])"
    by (simp add: lk d1_def artist_of_def)
  have a2: "list_key alice_artists \<notin> set (keys [(''@attr'', JDict [])])"
    by (simp add: lk keys_def)
  have a3: "map_of [(''artist'', JList [artist_of ''Low'', artist_of ''Can''])] (list_key alice_artists)
            = Some (JList [artist_of ''Low'', artist_of ''Can''])"
    by (simp add: lk)
  have c1: "page_items alice_artists (JDict d1) = Inr [artist_of ''Low'']"
    using page_item_extraction [where a = alice_artists and d = d1] a1
    by (simp add: artist_of_def)
  have c2: "page_items alice_artists (JDict [(''@attr'', JDict [])]) = Inr []"
    using page_item_extraction [where a = alice_artists and d = "[(''@attr'', JDict [])]"] a2
    by blast
  have c3: "page_items alice_artists (JDict [(''artist'', JList [artist_of ''Low'', artist_of ''Can''])])
     = Inr [artist_of ''Low'', artist_of ''Can'']"
    using page_item_extraction [where a = alice_artists
        and d = "[(''artist'', JList [artist_of ''Low'', artist_of ''Can''])]"] a3
    by blast
  have h1: "\<not> keyword_clash (page_params alice_artists (current_page st))"
    by (simp add: eval_defs alice_artists_def)
  have h2: "decode_reply (single_item_remote (length (sent st))) = Inr (JDict [(''artists'', JDict d1)])"
    by (simp add: st_def single_item_remote_def decode_reply_def response_ok_def keys_def d1_def)
  have h3: "page_container alice_artists (JDict [(''artists'', JDict d1)]) = Inr (JDict d1)"
    by (simp add: page_container_def py_get_def dict_get_def alice_artists_def)
  have c4: "yielded (snd (loop_body single_item_remote alice_client alice_artists st))
     = yielded st @ [artist_of ''Low'']"
    using page_item_extraction [where a = alice_artists and d = d1 and st = st
        and net = single_item_remote and data = "JDict [(''artists'', JDict d1)]"
        and items = "[artist_of ''Low'']" and c = alice_client] h1 h2 h3 c1
    by blast
  from c1 c2 c3 c4 show ?thesis by (simp add: st_def d1_def)
qed

text \<open>
  C7. A total that \<^verbatim>\<open>int()\<close> cannot convert is meant to count as one page. For an infinite
  float (\<^verbatim>\<open>Infinity\<close>, or a literal such as \<^verbatim>\<open>1e999\<close>) \<^verbatim>\<open>int()\<close> raises \<^verbatim>\<open>OverflowError\<close>,
  which line 162 does not catch: the generator ends with that exception after the
  first page. For every other value (\<open>unparseable_total_is_one\<close>, \<open>absent_total_is_one\<close>,
  \<open>no_attr_total_is_one\<close>) the total is 1.
\<close>

theorem infinite_total_raises_overflow:
  "iter_paginated infinite_total_remote alice_client alice_artists [] =
     (Some OverflowError,
      \<lparr>current_page = 1, total_pages = None, yielded = [artist_of ''Radiohead''],
       sent = [page_query alice_client alice_artists 1]\<rparr>)"
proof -
  define st0 where "st0 = \<lparr>current_page = 1, total_pages = None, yielded = [], sent = ([] :: dict list)\<rparr>"
  have "first_page_total (artists_container [artist_of ''Radiohead''] (JFloat PosInf)) = Inl OverflowError"
    by (simp add: first_page_total_def eval_defs artists_container_def py_int_def)
  then have "loop_body infinite_total_remote alice_client alice_artists st0 =
      (Raise OverflowError, st0\<lparr>yielded := [artist_of ''Radiohead''],
                                sent := [page_query alice_client alice_artists 1]\<rparr>)"
    by (simp add: loop_body_def request_def Let_def st0_def infinite_total_remote_def
          decode_reply_def response_ok_def keys_def page_container_def page_items_def py_get_def
          dict_get_def is_dict_def py_iter_def keyword_clash_def page_params_def dict_update_def
          page_query_def alice_artists_def artists_container_def)
  then show ?thesis
    unfolding iter_paginated_def st0_def [symmetric]
    by (subst iter_loop.simps) (simp add: st0_def)
qed

text \<open>
  C8. When the first page fixes the total \<open>T\<close> and the first \<open>max 1 T\<close> replies are pages,
  the generator ends normally after exactly \<open>max 1 T\<close> requests, for pages
  \<open>1, \<dots>, max 1 T\<close>, with the items of these pages: the replies after them are never
  looked at, whatever they hold (a remote that reports fewer pages than it has loses
  the rest). Every pass of the loop that continues leaves the total as the first page
  fixed it, adds one to the page counter, and is taken only below the total. On every
  sequence of replies, well-formed or not, the run is finite and its requests are
  those for pages \<open>1, \<dots>, n\<close> for some \<open>n\<close>, each page once and in order.
\<close>

theorem pagination_terminates:
  assumes "\<not> keyword_clash (page_params a 1)"
    and "page_of a (net (length hist)) = Some (container, items)"
    and "first_page_total container = Inr T"
    and "\<forall>i < nat (max 1 T). page_of a (net (length hist + i)) \<noteq> None"
  shows "iter_paginated net c a hist =
           (None, \<lparr>current_page = max 1 T, total_pages = Some T,
                   yielded = concat (map (\<lambda>i. reply_items a (net (length hist + i))) [0..<nat (max 1 T)]),
                   sent = hist @ map (page_query c a) [1..max 1 T]\<rparr>)
         \<and> (\<forall>net'. (\<forall>j < length hist + nat (max 1 T). net' j = net j)
                \<longrightarrow> iter_paginated net' c a hist = iter_paginated net c a hist)
         \<and> (\<forall>st st'. loop_body net c a st = (Continue, st')
                \<longrightarrow> (\<exists>t. total_pages st' = Some t
                         \<and> (total_pages st = None \<or> total_pages st = Some t)
                         \<and> current_page st' = current_page st + 1
                         \<and> current_page st < t))
         \<and> (\<forall>net'. \<exists>n. sent (snd (iter_paginated net' c a hist)) =
                          hist @ map (page_query c a) [1..int n])"
proof (intro conjI allI impI)
  show run: "iter_paginated net c a hist =
           (None, \<lparr>current_page = max 1 T, total_pages = Some T,
                   yielded = concat (map (\<lambda>i. reply_items a (net (length hist + i))) [0..<nat (max 1 T)]),
                   sent = hist @ map (page_query c a) [1..max 1 T]\<rparr>)"
    using iter_paginated_pages [of a net hist container items T c] assms by simp
  show "iter_paginated net' c a hist = iter_paginated net c a hist"
    if agree: "\<forall>j < length hist + nat (max 1 T). net' j = net j" for net'
  proof -
    have pos: "0 < nat (max 1 T)" by simp
    have same: "net' (length hist + i) = net (length hist + i)" if "i < nat (max 1 T)" for i
      using agree that by simp
    have first: "page_of a (net' (length hist)) = Some (container, items)"
      using same [of 0] pos assms(2) by simp
    have pages: "\<forall>i < nat (max 1 T). page_of a (net' (length hist + i)) \<noteq> None"
      using same assms(4) by simp
    have items: "map (\<lambda>i. reply_items a (net' (length hist + i))) [0..<nat (max 1 T)]
               = map (\<lambda>i. reply_items a (net (length hist + i))) [0..<nat (max 1 T)]"
      by (rule map_cong) (simp_all add: same)
    show ?thesis
      using iter_paginated_pages [of a net' hist container items T c] assms(1,3) first pages
      by (simp add: run items)
  qed
  show "\<exists>t. total_pages st' = Some t \<and> (total_pages st = None \<or> total_pages st = Some t)
           \<and> current_page st' = current_page st + 1 \<and> current_page st < t"
    if "loop_body net c a st = (Continue, st')" for st st'
    using that by (rule loop_body_Continue)
  show "\<exists>n. sent (snd (iter_paginated net' c a hist)) = hist @ map (page_query c a) [1..int n]"
    for net'
    by (rule iter_paginated_sent)
qed

theorem pagination_terminates_witness:
  "first_page_total (artists_container [artist_of ''Radiohead'', artist_of ''Low''] (JStr ''2'')) = Inr 2
   \<and> iter_paginated alice_remote alice_client alice_artists [] =
       (None, \<lparr>current_page = 2, total_pages = Some 2,
               yielded = [artist_of ''Radiohead'', artist_of ''Low'', artist_of ''Can''],
               sent = [page_query alice_client alice_artists 1, page_query alice_client alice_artists 2]\<rparr>)
   \<and> reply_items alice_artists (alice_remote 2) = [artist_of ''Can'']
   \<and> iter_paginated outage_after_two alice_client alice_artists [] =
       iter_paginated alice_remote alice_client alice_artists []"
proof -
  have p0: "page_of alice_artists (alice_remote (length ([] :: dict list))) =
     Some (artists_container [artist_of ''Radiohead'', artist_of ''Low''] (JStr ''2''),
           [artist_of ''Radiohead'', artist_of ''Low''])"
    by (simp add: eval_defs alice_artists_def alice_remote_def artists_container_def)
  have p1: "page_of alice_artists (alice_remote (Suc n)) =
     Some (artists_container [artist_of ''Can''] (JStr ''2''), [artist_of ''Can''])" for n
    by (simp add: eval_defs alice_artists_def alice_remote_def artists_container_def)
  have h1: "\<not> keyword_clash (page_params alice_artists 1)"
    by (simp add: eval_defs alice_artists_def)
  have h3: "first_page_total (artists_container [artist_of ''Radiohead'', artist_of ''Low''] (JStr ''2'')) = Inr 2"
    by (simp add: first_page_total_def eval_defs artists_container_def py_int_def int_of_str_2)
  have h4: "\<forall>i < nat (max 1 2). page_of alice_artists (alice_remote (length ([] :: dict list) + i)) \<noteq> None"
  proof (intro allI impI)
    fix i :: nat assume "i < nat (max 1 2)"
    then have "i = 0 \<or> i = Suc 0" by auto
    then show "page_of alice_artists (alice_remote (length ([] :: dict list) + i)) \<noteq> None"
      using p0 p1 [of 0] by auto
  qed
  have upt: "[0..<2] = [0, Suc 0]" by (simp add: numeral_2_eq_2)
  have upto: "[1..2::int] = [1, 2]" by (simp add: upto_rec1)
  have agree: "\<forall>j < length ([] :: dict list) + nat (max 1 2). outage_after_two j = alice_remote j"
    by (simp add: outage_after_two_def)
  have two: "(2::nat) = Suc (Suc 0)" by simp
  note inst = pagination_terminates
         [where a = alice_artists and net = alice_remote and hist = "[]" and c = alice_client
            and T = 2, OF h1 p0 h3 h4]
  from inst have run: "iter_paginated alice_remote alice_client alice_artists [] =
       (None, \<lparr>current_page = 2, total_pages = Some 2,
               yielded = [artist_of ''Radiohead'', artist_of ''Low'', artist_of ''Can''],
               sent = [page_query alice_client alice_artists 1, page_query alice_client alice_artists 2]\<rparr>)"
    using p0 p1 [of 0] by (simp add: upt upto reply_items_def)
  from inst agree have same: "iter_paginated outage_after_two alice_client alice_artists [] =
       iter_paginated alice_remote alice_client alice_artists []"
    by blast
  have beyond: "reply_items alice_artists (alice_remote 2) = [artist_of ''Can'']"
    using p1 [of "Suc 0"] by (simp add: reply_items_def two)
  from h3 run beyond same show ?thesis by blast
qed

text \<open>
  C9. For every list of records, the empty one included, each writer leaves a table
  whose header is the column list of the specification, in its order, and whose rows
  are the records' projections in order: a cell is the record's field, and the empty
  string when the record lacks it; for the albums' \<^verbatim>\<open>artist\<close> column it is the normalized
  artist, the empty string when the record has no \<^verbatim>\<open>artist\<close> field. The path must be one
  that can be opened for writing.
\<close>

theorem csv_header_and_rows:
  assumes "p \<notin> dirs fs" and "butlast p \<in> dirs fs" and "p \<noteq> []"
  shows "write_artists_csv (map JDict recs) p fs =
           (None, fs\<lparr>files := (files fs)(p \<mapsto>
              CsvTable [''name'', ''mbid'', ''playcount'', ''url'', ''streamable'', ''tagcount'']
                (map (\<lambda>d. [dict_get d ''name'' (JStr ''''), dict_get d ''mbid'' (JStr ''''),
                             dict_get d ''playcount'' (JStr ''''), dict_get d ''url'' (JStr ''''),
                             dict_get d ''streamable'' (JStr ''''), dict_get d ''tagcount'' (JStr '''')])
                   recs))\<rparr>)
         \<and> write_albums_csv (map JDict recs) p fs =
           (None, fs\<lparr>files := (files fs)(p \<mapsto>
              CsvTable [''name'', ''artist'', ''mbid'', ''playcount'', ''url'']
                (map (\<lambda>d. [dict_get d ''name'' (JStr ''''), album_artist_cell d,
                             dict_get d ''mbid'' (JStr ''''), dict_get d ''playcount'' (JStr ''''),
                             dict_get d ''url'' (JStr '''')])
                   recs))\<rparr>)
         \<and> (k \<notin> set (keys d) \<longrightarrow> dict_get d k (JStr '''') = JStr '''')
         \<and> (''artist'' \<notin> set (keys d) \<longrightarrow> album_artist_cell d = JStr '''')"
proof (intro conjI impI)
  have op: "open_w p fs = Inr fs" using assms by (simp add: open_w_def)
  show "write_artists_csv (map JDict recs) p fs =
           (None, fs\<lparr>files := (files fs)(p \<mapsto>
              CsvTable [''name'', ''mbid'', ''playcount'', ''url'', ''streamable'', ''tagcount'']
                (map (\<lambda>d. [dict_get d ''name'' (JStr ''''), dict_get d ''mbid'' (JStr ''''),
                             dict_get d ''playcount'' (JStr ''''), dict_get d ''url'' (JStr ''''),
                             dict_get d ''streamable'' (JStr ''''), dict_get d ''tagcount'' (JStr '''')])
                   recs))\<rparr>)"
  proof -
    have "write_artists_csv (map JDict recs) p fs =
        (None, fs\<lparr>files := (files fs)(p \<mapsto> CsvTable artist_fieldnames (map artist_cells recs))\<rparr>)"
      by (simp add: write_artists_csv_def write_csv_file_def op write_rows_artists)
    then show ?thesis
      by (simp add: artist_fieldnames_def artist_cells_def [abs_def])
  qed
  show "write_albums_csv (map JDict recs) p fs =
           (None, fs\<lparr>files := (files fs)(p \<mapsto>
              CsvTable [''name'', ''artist'', ''mbid'', ''playcount'', ''url'']
                (map (\<lambda>d. [dict_get d ''name'' (JStr ''''), album_artist_cell d,
                             dict_get d ''mbid'' (JStr ''''), dict_get d ''playcount'' (JStr ''''),
                             dict_get d ''url'' (JStr '''')])
                   recs))\<rparr>)"
  proof -
    have "write_albums_csv (map JDict recs) p fs =
        (None, fs\<lparr>files := (files fs)(p \<mapsto> CsvTable album_fieldnames (map album_cells recs))\<rparr>)"
      by (simp add: write_albums_csv_def write_csv_file_def op write_rows_albums)
    then show ?thesis
      by (simp add: album_fieldnames_def album_cells_def [abs_def])
  qed
  show "dict_get d k (JStr '''') = JStr ''''" if "k \<notin> set (keys d)"
  proof -
    from that have "map_of d k = None" by (simp add: keys_def map_of_eq_None_iff)
    then show ?thesis by (simp add: dict_get_def)
  qed
  show "album_artist_cell d = JStr ''''" if "''artist'' \<notin> set (keys d)"
  proof -
    from that have "map_of d ''artist'' = None" by (simp add: keys_def map_of_eq_None_iff)
    then show ?thesis by (simp add: album_artist_cell_def)
  qed
qed

theorem csv_header_and_rows_witness:
  "write_artists_csv [] [''out'', ''lib_artists.csv''] out_dir_only =
     (None, out_dir_only\<lparr>files := (files out_dir_only)([''out'', ''lib_artists.csv''] \<mapsto>
        CsvTable [''name'', ''mbid'', ''playcount'', ''url'', ''streamable'', ''tagcount''] [])\<rparr>)
   \<and> write_albums_csv [JDict [(''name'', JStr ''Kid A''), (''playcount'', JStr ''12'')]]
        [''out'', ''lib_albums.csv''] out_dir_only =
     (None, out_dir_only\<lparr>files := (files out_dir_only)([''out'', ''lib_albums.csv''] \<mapsto>
        CsvTable [''name'', ''artist'', ''mbid'', ''playcount'', ''url'']
          [[JStr ''Kid A'', JStr '''', JStr '''', JStr ''12'', JStr '''']])\<rparr>)"
proof -
  have a: "[''out'', ''lib_artists.csv''] \<notin> dirs out_dir_only"
     "butlast [''out'', ''lib_artists.csv''] \<in> dirs out_dir_only"
     "[''out'', ''lib_artists.csv''] \<noteq> []"
    by (simp_all add: out_dir_only_def)
  have b: "[''out'', ''lib_albums.csv''] \<notin> dirs out_dir_only"
     "butlast [''out'', ''lib_albums.csv''] \<in> dirs out_dir_only"
     "[''out'', ''lib_albums.csv''] \<noteq> []"
    by (simp_all add: out_dir_only_def)
  note artists = csv_header_and_rows [where recs = "[]", OF a, THEN conjunct1]
  note albums = csv_header_and_rows
      [where recs = "[[(''name'', JStr ''Kid A''), (''playcount'', JStr ''12'')]]", OF b,
       THEN conjunct2, THEN conjunct1]
  have cell: "album_artist_cell [(''name'', JStr ''Kid A''), (''playcount'', JStr ''12'')] = JStr ''''"
    by (simp add: album_artist_cell_def)
  from artists albums show ?thesis
    by (simp add: dict_get_def cell)
qed

text \<open>
  C10. When the total the first page reports converts to an integer below 1, the
  generator sends the one request for page 1, yields the items of that page and ends
  normally.
\<close>

theorem total_below_one_single_request:
  assumes "\<not> keyword_clash (page_params a 1)"
    and "page_of a (net (length hist)) = Some (container, items)"
    and "reported_total container = Inr v"
    and "py_int v = Inr n"
    and "n < 1"
  shows "iter_paginated net c a hist =
           (None, \<lparr>current_page = 1, total_pages = Some n, yielded = items,
                   sent = hist @ [page_query c a 1]\<rparr>)"
proof -
  have nn: "v \<noteq> JNull" using assms(4) by (auto simp: py_int_def)
  have total: "first_page_total container = Inr n"
    using assms(3,4) nn by (simp add: first_page_total_def)
  have m: "max 1 n = 1" using assms(5) by simp
  have pg: "\<forall>i < nat (max 1 n). page_of a (net (length hist + i)) \<noteq> None"
    using assms(2) by (simp add: m)
  show ?thesis
    using iter_paginated_pages [of a net hist container items n c] assms(1,2) total pg
    by (simp add: m reply_items_def)
qed

theorem total_below_one_single_request_witness:
  "page_of alice_artists (zero_total_remote 0) =
     Some (artists_container [artist_of ''Radiohead'', artist_of ''Low''] (JStr ''0''),
           [artist_of ''Radiohead'', artist_of ''Low''])
   \<and> py_int (JStr ''0'') = Inr 0
   \<and> iter_paginated zero_total_remote alice_client alice_artists [] =
       (None, \<lparr>current_page = 1, total_pages = Some 0,
               yielded = [artist_of ''Radiohead'', artist_of ''Low''],
               sent = [page_query alice_client alice_artists 1]\<rparr>)"
proof -
  have p0: "page_of alice_artists (zero_total_remote (length ([] :: dict list))) =
     Some (artists_container [artist_of ''Radiohead'', artist_of ''Low''] (JStr ''0''),
           [artist_of ''Radiohead'', artist_of ''Low''])"
    by (simp add: eval_defs alice_artists_def zero_total_remote_def artists_container_def)
  have h1: "\<not> keyword_clash (page_params alice_artists 1)"
    by (simp add: eval_defs alice_artists_def)
  have h3: "reported_total (artists_container [artist_of ''Radiohead'', artist_of ''Low''] (JStr ''0'')) = Inr (JStr ''0'')"
    by (simp add: eval_defs artists_container_def)
  have h4: "py_int (JStr ''0'') = Inr 0"
    by (simp add: py_int_def int_of_str_0)
  from total_below_one_single_request
         [where c = alice_client and net = zero_total_remote and hist = "[]", OF h1 p0 h3 h4] p0 h4
  show ?thesis by simp
qed

end
